theory Spec2Isabelle
  imports Complex_Main "HOL-Library.Word" "HOL-Library.AList" "HOL-Library.Multiset" "HOL-Library.Sublist"
begin

section \<open>Vertical Pod Autoscaler: updater priority, admission webhook, recommender loop\<close>

subsection \<open>Quantities\<close>

text \<open>
  A \<open>resource.Quantity\<close> is an exact decimal number; the code reads it through
  \<open>Cmp\<close> (exact comparison) and \<open>MilliValue\<close>: \<open>q * 1000\<close> as an int64, where a fraction
  of a milli-unit is rounded away from zero (the library scales its int64 representation
  that way) and a value beyond int64, which the library documents as an overflow, wraps
  around.
\<close>

type_synonym ResourceName = string
type_synonym Quantity = rat
type_synonym int64 = "64 word"

definition MilliValue :: "Quantity \<Rightarrow> int64" where
  "MilliValue q = word_of_int (if 0 \<le> q then \<lceil>q * 1000\<rceil> else \<lfloor>q * 1000\<rfloor>)"

definition Cmp :: "Quantity \<Rightarrow> Quantity \<Rightarrow> int" where
  "Cmp q y = (if q < y then - 1 else if q = y then 0 else 1)"

subsection \<open>float64\<close>

text \<open>
  A finite \<open>float64\<close> is the rational number it stands for. \<open>float64_round x\<close> is the
  IEEE 754 double nearest to \<open>x\<close>, a tie going to the even significand: 53 significant
  bits at the binary exponent of \<open>x\<close>, and the spacing \<open>2^-1074\<close> below the smallest normal
  number. It is the rounding of the conversion \<open>float64(i)\<close>, of a constant such as \<open>0.10\<close>
  and of each of \<open>+\<close>, \<open>-\<close> and \<open>/\<close>; \<open>math.Max\<close>, \<open>math.Abs\<close> and the comparisons are
  exact. The numbers computed here are far inside the finite range (an int64 converts to at
  most \<open>2^63\<close> in magnitude and is divided by a number that is at least 1), so infinities and
  NaN do not arise and are not modelled; a float64 that comes from outside, such as a
  configured MinChangePriority, is taken to be finite.
\<close>

type_synonym float64 = rat

definition round_half_even :: "rat \<Rightarrow> int" where
  "round_half_even x =
     (let f = \<lfloor>x\<rfloor>; d = x - of_int f
      in if d < 1 / 2 then f else if 1 / 2 < d then f + 1 else if even f then f else f + 1)"

text \<open>The number of binary digits of a positive integer.\<close>

function bit_length :: "int \<Rightarrow> nat" where
  "bit_length n = (if n \<le> 0 then 0 else Suc (bit_length (n div 2)))"
  by auto
termination by (relation "measure nat") auto

declare bit_length.simps [simp del]

definition pow2 :: "int \<Rightarrow> rat" where
  "pow2 k = (if 0 \<le> k then 2 ^ nat k else 1 / 2 ^ nat (- k))"

text \<open>The binary exponent of a positive rational \<open>x\<close>: the \<open>e\<close> with \<open>2^e \<le> x < 2^(e+1)\<close>.\<close>

definition exponent :: "rat \<Rightarrow> int" where
  "exponent x =
     (let k = int (bit_length (fst (quotient_of x))) - int (bit_length (snd (quotient_of x)))
      in if pow2 k \<le> x then k else k - 1)"

definition float64_round :: "rat \<Rightarrow> float64" where
  "float64_round x =
     (if x = 0 then 0
      else (let e = max (exponent \<bar>x\<bar>) (- 1022) - 52
            in of_int (round_half_even (x / pow2 e)) * pow2 e))"

definition float64_of :: "int64 \<Rightarrow> float64" where
  "float64_of x = float64_round (of_int (sint x))"

definition float64_add :: "float64 \<Rightarrow> float64 \<Rightarrow> float64" where
  "float64_add x y = float64_round (x + y)"

definition float64_sub :: "float64 \<Rightarrow> float64 \<Rightarrow> float64" where
  "float64_sub x y = float64_round (x - y)"

definition float64_div :: "float64 \<Rightarrow> float64 \<Rightarrow> float64" where
  "float64_div x y = float64_round (x / y)"

subsection \<open>Resource lists and time\<close>

text \<open>
  A \<open>ResourceList\<close> is a Go map: it is modelled by the list of its entries, in the order
  \<open>range\<close> visits them (which Go leaves unspecified); a key is looked up with \<open>map_of\<close>.
  It may be nil (\<open>None\<close>): a nil map reads as empty.
\<close>

type_synonym ResourceList = "(ResourceName \<times> Quantity) list option"

definition lookupRL :: "ResourceList \<Rightarrow> ResourceName \<Rightarrow> Quantity option" where
  "lookupRL rl n = (case rl of None \<Rightarrow> None | Some kvs \<Rightarrow> map_of kvs n)"

definition rangeRL :: "ResourceList \<Rightarrow> (ResourceName \<times> Quantity) list" where
  "rangeRL rl = (case rl of None \<Rightarrow> [] | Some kvs \<Rightarrow> kvs)"

text \<open>
  \<open>time.Time\<close> is an instant in nanoseconds, \<open>time.Duration\<close> an int64 count of
  nanoseconds; \<open>Time.Sub\<close> saturates at the largest and smallest duration.
\<close>

type_synonym Time = int
type_synonym Duration = int

definition maxDuration :: Duration where
  "maxDuration = 2 ^ 63 - 1"

definition minDuration :: Duration where
  "minDuration = - (2 ^ 63)"

definition Time_Sub :: "Time \<Rightarrow> Time \<Rightarrow> Duration" where
  "Time_Sub t u =
     (let d = t - u
      in if d < minDuration then minDuration else if maxDuration < d then maxDuration else d)"

definition Time_Add :: "Time \<Rightarrow> Duration \<Rightarrow> Time" where
  "Time_Add t d = t + d"

definition Time_Before :: "Time \<Rightarrow> Time \<Rightarrow> bool" where
  "Time_Before t u = (t < u)"

definition Minute :: Duration where
  "Minute = 60 * 1000000000"

definition Hour :: Duration where
  "Hour = 60 * Minute"

subsection \<open>Pods and recommendations\<close>

record Container =
  Container_Name :: string
  Requests :: ResourceList
  Limits :: ResourceList

record ContainerStateTerminated =
  Reason :: string
  StartedAt :: Time
  FinishedAt :: Time

record ContainerStatus =
  LastTerminated :: "ContainerStateTerminated option"

record Pod =
  Pod_Name :: string
  GenerateName :: string
  Pod_Namespace :: string
  Annotations :: "(string \<times> string) list option"
  Containers :: "Container list"
  ContainerStatuses :: "ContainerStatus list"
  StartTime :: "Time option"

record RecommendedContainerResources =
  ContainerName :: string
  Target :: ResourceList
  LowerBound :: ResourceList
  UpperBound :: ResourceList
  UncappedTarget :: ResourceList

type_synonym RecommendedPodResources = "RecommendedContainerResources list"

text \<open>
  Modelled from the spec: \<open>vpa_api_util.GetRecommendationForContainer\<close>, whose source
  is in another package: it returns the recommendation of the container of that name (the
  first one of that name), nil when the recommendation is nil or has none.
\<close>

definition GetRecommendationForContainer ::
  "string \<Rightarrow> RecommendedPodResources option \<Rightarrow> RecommendedContainerResources option" where
  "GetRecommendationForContainer containerName recommendation =
     (case recommendation of
        None \<Rightarrow> None
      | Some recs \<Rightarrow> find (\<lambda>containerRec. ContainerName containerRec = containerName) recs)"

subsection \<open>Resource policy of an autoscaler config\<close>

record ContainerResourcePolicy =
  Policy_ContainerName :: string
  Mode :: "string option"
  MinAllowed :: ResourceList
  MaxAllowed :: ResourceList

type_synonym PodResourcePolicy = "ContainerResourcePolicy list"
type_synonym VerticalPodAutoscalerCondition = "string \<times> string"

datatype error = Error string

subsection \<open>update\_priority\_calculator.go\<close>

definition defaultUpdateThreshold :: float64 where
  "defaultUpdateThreshold = float64_round (1 / 10)"

definition podLifetimeUpdateThreshold :: Duration where
  "podLifetimeUpdateThreshold = Hour * 12"

definition default_evictAfterOOMThreshold :: Duration where
  "default_evictAfterOOMThreshold = 10 * Minute"

record podPriority =
  pod :: Pod
  outsideRecommendedRange :: bool
  scaleUp :: bool
  resourceDiff :: float64
  recommendation :: "RecommendedPodResources option"

record UpdateConfig =
  MinChangePriority :: float64

text \<open>
  The recommendation processor is an interface of another package: its \<open>Apply\<close> is a
  field of the calculator. The flag \<open>evict-after-oom-threshold\<close> is a field too.
\<close>

record UpdatePriorityCalculator =
  resourcesPolicy :: "PodResourcePolicy option"
  conditions :: "VerticalPodAutoscalerCondition list"
  pods :: "podPriority list"
  config :: UpdateConfig
  recommendationProcessor_Apply ::
    "RecommendedPodResources option \<Rightarrow> PodResourcePolicy option \<Rightarrow>
     VerticalPodAutoscalerCondition list \<Rightarrow> Pod \<Rightarrow> error + RecommendedPodResources option"
  evictAfterOOMThreshold :: Duration

definition NewUpdatePriorityCalculator ::
  "PodResourcePolicy option \<Rightarrow> VerticalPodAutoscalerCondition list \<Rightarrow> UpdateConfig option \<Rightarrow>
   (RecommendedPodResources option \<Rightarrow> PodResourcePolicy option \<Rightarrow>
     VerticalPodAutoscalerCondition list \<Rightarrow> Pod \<Rightarrow> error + RecommendedPodResources option) \<Rightarrow>
   Duration \<Rightarrow> UpdatePriorityCalculator" where
  "NewUpdatePriorityCalculator policy conds cfg processor oomThreshold =
     \<lparr>resourcesPolicy = policy, conditions = conds, pods = [],
      config = (case cfg of None \<Rightarrow> \<lparr>MinChangePriority = defaultUpdateThreshold\<rparr> | Some c \<Rightarrow> c),
      recommendationProcessor_Apply = processor,
      evictAfterOOMThreshold = oomThreshold\<rparr>"

text \<open>The loop state of \<open>getUpdatePriority\<close>: the two flags and the two maps of totals.\<close>

record priorityAcc =
  acc_outside :: bool
  acc_scaleUp :: bool
  totalRequestPerResource :: "(ResourceName \<times> int64) list"
  totalRecommendedPerResource :: "(ResourceName \<times> int64) list"

text \<open>\<open>m[k] += v\<close> on a Go map: a key that is absent reads as 0.\<close>

definition map_get0 :: "(ResourceName \<times> int64) list \<Rightarrow> ResourceName \<Rightarrow> int64" where
  "map_get0 m k = (case map_of m k of None \<Rightarrow> 0 | Some v \<Rightarrow> v)"

definition total_add :: "(ResourceName \<times> int64) list \<Rightarrow> ResourceName \<Rightarrow> int64 \<Rightarrow> (ResourceName \<times> int64) list" where
  "total_add m k v = AList.update k (map_get0 m k + v) m"

text \<open>One pass of the inner loop, over one entry of \<open>recommendedRequest.Target\<close>.\<close>

definition targetStep ::
  "Container \<Rightarrow> RecommendedContainerResources \<Rightarrow> ResourceName \<times> Quantity \<Rightarrow> priorityAcc \<Rightarrow> priorityAcc" where
  "targetStep podContainer recommendedRequest entry acc =
     (let resourceName = fst entry; recommended = snd entry;
          acc1 = acc\<lparr>totalRecommendedPerResource :=
                   total_add (totalRecommendedPerResource acc) resourceName (MilliValue recommended)\<rparr>;
          lowerBound = lookupRL (LowerBound recommendedRequest) resourceName;
          upperBound = lookupRL (UpperBound recommendedRequest) resourceName
      in case lookupRL (Requests podContainer) resourceName of
           Some request \<Rightarrow>
             (let acc2 = acc1\<lparr>totalRequestPerResource :=
                           total_add (totalRequestPerResource acc1) resourceName (MilliValue request)\<rparr>;
                  acc3 = (if sint (MilliValue request) < sint (MilliValue recommended)
                          then acc2\<lparr>acc_scaleUp := True\<rparr> else acc2)
              in if (case lowerBound of Some lb \<Rightarrow> Cmp request lb < 0 | None \<Rightarrow> False) \<or>
                    (case upperBound of Some ub \<Rightarrow> Cmp request ub > 0 | None \<Rightarrow> False)
                 then acc3\<lparr>acc_outside := True\<rparr> else acc3)
         | None \<Rightarrow> acc1\<lparr>acc_scaleUp := True, acc_outside := True\<rparr>)"

text \<open>One pass of the outer loop, over one container of the pod.\<close>

definition containerStep ::
  "RecommendedPodResources option \<Rightarrow> Container \<Rightarrow> priorityAcc \<Rightarrow> priorityAcc" where
  "containerStep recommendation0 podContainer acc =
     (case GetRecommendationForContainer (Container_Name podContainer) recommendation0 of
        None \<Rightarrow> acc
      | Some recommendedRequest \<Rightarrow>
          fold (targetStep podContainer recommendedRequest) (rangeRL (Target recommendedRequest)) acc)"

text \<open>One pass of the last loop, over one entry of \<open>totalRecommendedPerResource\<close>.\<close>

definition diffStep ::
  "(ResourceName \<times> int64) list \<Rightarrow> ResourceName \<times> int64 \<Rightarrow> float64 \<Rightarrow> float64" where
  "diffStep totalRequests entry resourceDiff0 =
     (let totalRequest = max (float64_of (map_get0 totalRequests (fst entry))) 1
      in float64_add resourceDiff0
           (float64_div \<bar>float64_sub totalRequest (float64_of (snd entry))\<bar> totalRequest))"

text \<open>
  The order in which \<open>range\<close> visits the entries of a Go map is not specified, and the last
  loop of \<open>getUpdatePriority\<close> adds rounded terms, so that its sum can depend on that
  order. The order is the parameter \<open>rangeOrder\<close>: it takes the entries of the map
  \<open>totalRecommendedPerResource\<close> (an association list with one entry per key) to the
  sequence in which the loop visits them, a permutation of the entries.
\<close>

definition getUpdatePriority ::
  "((ResourceName \<times> int64) list \<Rightarrow> (ResourceName \<times> int64) list) \<Rightarrow>
   Pod \<Rightarrow> RecommendedPodResources option \<Rightarrow> podPriority" where
  "getUpdatePriority rangeOrder p recommendation0 =
     (let acc = fold (containerStep recommendation0) (Containers p)
                  \<lparr>acc_outside = False, acc_scaleUp = False,
                   totalRequestPerResource = [], totalRecommendedPerResource = []\<rparr>
      in \<lparr>pod = p,
          outsideRecommendedRange = acc_outside acc,
          scaleUp = acc_scaleUp acc,
          resourceDiff = fold (diffStep (totalRequestPerResource acc))
                           (rangeOrder (totalRecommendedPerResource acc)) 0,
          recommendation = recommendation0\<rparr>)"

definition quickOOM :: "Duration \<Rightarrow> Pod \<Rightarrow> bool" where
  "quickOOM threshold p =
     (case ContainerStatuses p of
        [status] \<Rightarrow>
          (case LastTerminated status of
             None \<Rightarrow> False
           | Some terminated \<Rightarrow>
               Reason terminated = ''OOMKilled'' \<and>
               Time_Sub (FinishedAt terminated) (StartedAt terminated) < threshold)
      | _ \<Rightarrow> False)"

definition AddPod ::
  "((ResourceName \<times> int64) list \<Rightarrow> (ResourceName \<times> int64) list) \<Rightarrow>
   UpdatePriorityCalculator \<Rightarrow> Pod \<Rightarrow> RecommendedPodResources option \<Rightarrow> Time \<Rightarrow> UpdatePriorityCalculator" where
  "AddPod rangeOrder calc p recommendation0 now =
     (case recommendationProcessor_Apply calc recommendation0 (resourcesPolicy calc) (conditions calc) p of
        Inl err \<Rightarrow> calc
      | Inr processedRecommendation \<Rightarrow>
          (let updatePriority = getUpdatePriority rangeOrder p processedRecommendation
           in if \<not> outsideRecommendedRange updatePriority \<and> \<not> quickOOM (evictAfterOOMThreshold calc) p
              then (case StartTime p of
                      None \<Rightarrow> calc
                    | Some startTime \<Rightarrow>
                        if Time_Before now (Time_Add startTime podLifetimeUpdateThreshold) then calc
                        else if resourceDiff updatePriority < MinChangePriority (config calc) then calc
                        else calc\<lparr>pods := pods calc @ [updatePriority]\<rparr>)
              else calc\<lparr>pods := pods calc @ [updatePriority]\<rparr>))"

text \<open>\<open>byPriority.Less\<close>, on the two elements it indexes.\<close>

definition Less :: "podPriority \<Rightarrow> podPriority \<Rightarrow> bool" where
  "Less a b = (if scaleUp a \<noteq> scaleUp b then scaleUp a else resourceDiff a > resourceDiff b)"

text \<open>
  \<open>sort.Sort\<close> is Go's library sort: in place, not stable, driven by \<open>Less\<close> only. It is
  modelled by an insertion sort that compares with \<open>Less\<close>.
\<close>

fun sort_insert :: "podPriority \<Rightarrow> podPriority list \<Rightarrow> podPriority list" where
  "sort_insert x [] = [x]"
| "sort_insert x (y # ys) = (if Less y x then y # sort_insert x ys else x # y # ys)"

definition sort_Sort :: "podPriority list \<Rightarrow> podPriority list" where
  "sort_Sort list = foldr sort_insert list []"

text \<open>A \<open>PodEvictionAdmission\<close> may be nil; otherwise it is its \<open>Admit\<close> method.\<close>

definition admits ::
  "(Pod \<Rightarrow> RecommendedPodResources option \<Rightarrow> bool) option \<Rightarrow> podPriority \<Rightarrow> bool" where
  "admits admission podPrio =
     (case admission of None \<Rightarrow> True | Some Admit \<Rightarrow> Admit (pod podPrio) (recommendation podPrio))"

definition GetSortedPods ::
  "UpdatePriorityCalculator \<Rightarrow> (Pod \<Rightarrow> RecommendedPodResources option \<Rightarrow> bool) option \<Rightarrow>
   UpdatePriorityCalculator \<times> Pod list" where
  "GetSortedPods calc admission =
     (let calc' = calc\<lparr>pods := sort_Sort (pods calc)\<rparr>
      in (calc', map pod (filter (admits admission) (pods calc'))))"

subsection \<open>Reading the priority calculator: order, totals, eligibility\<close>

text \<open>
  \<open>precedes a b\<close>: \<open>a\<close> may stand before \<open>b\<close> in the priority order. A pod that
  scales up is never behind one that does not, and among pods that agree on \<open>scaleUp\<close>
  the larger \<open>resourceDiff\<close> is in front.
\<close>

definition precedes :: "podPriority \<Rightarrow> podPriority \<Rightarrow> bool" where
  "precedes a b =
     ((scaleUp b \<longrightarrow> scaleUp a) \<and> (scaleUp a = scaleUp b \<longrightarrow> resourceDiff b \<le> resourceDiff a))"

text \<open>
  The (container, resource, recommended target) triples that the two loops of
  \<open>getUpdatePriority\<close> visit, and the totals per resource over them, as int64 sums.
\<close>

definition containerEntries ::
  "RecommendedPodResources option \<Rightarrow> Container \<Rightarrow> (Container \<times> ResourceName \<times> Quantity) list" where
  "containerEntries rec c =
     (case GetRecommendationForContainer (Container_Name c) rec of
        None \<Rightarrow> []
      | Some r \<Rightarrow> map (Pair c) (rangeRL (Target r)))"

definition recommendedEntries ::
  "Pod \<Rightarrow> RecommendedPodResources option \<Rightarrow> (Container \<times> ResourceName \<times> Quantity) list" where
  "recommendedEntries p rec = concat (map (containerEntries rec) (Containers p))"

definition requestMilli :: "Container \<Rightarrow> ResourceName \<Rightarrow> int64" where
  "requestMilli c n = (case lookupRL (Requests c) n of None \<Rightarrow> 0 | Some request \<Rightarrow> MilliValue request)"

definition totalRecommended :: "Pod \<Rightarrow> RecommendedPodResources option \<Rightarrow> ResourceName \<Rightarrow> int64" where
  "totalRecommended p rec r =
     sum_list (map (\<lambda>e. MilliValue (snd (snd e)))
                   (filter (\<lambda>e. fst (snd e) = r) (recommendedEntries p rec)))"

definition totalRequest :: "Pod \<Rightarrow> RecommendedPodResources option \<Rightarrow> ResourceName \<Rightarrow> int64" where
  "totalRequest p rec r =
     sum_list (map (\<lambda>e. requestMilli (fst e) (fst (snd e)))
                   (filter (\<lambda>e. fst (snd e) = r) (recommendedEntries p rec)))"

definition recommendedResources :: "Pod \<Rightarrow> RecommendedPodResources option \<Rightarrow> ResourceName list" where
  "recommendedResources p rec = remdups (map (\<lambda>e. fst (snd e)) (recommendedEntries p rec))"

text \<open>
  The specification's formula for \<open>resourceDiff\<close>, in exact arithmetic and in its two
  readings: the sum over resources of \<open>|request - recommended| / max(request, 1)\<close> on the
  totals per resource, and the same sum taken per container and resource. A missing request
  counts as 0 in both.
\<close>

definition spec_resourceDiff :: "Pod \<Rightarrow> RecommendedPodResources option \<Rightarrow> rat" where
  "spec_resourceDiff p rec =
     (\<Sum>r\<leftarrow>recommendedResources p rec.
        \<bar>of_int (sint (totalRequest p rec r)) - of_int (sint (totalRecommended p rec r))\<bar> /
        max (of_int (sint (totalRequest p rec r))) 1)"

definition spec_resourceDiff_per_container :: "Pod \<Rightarrow> RecommendedPodResources option \<Rightarrow> rat" where
  "spec_resourceDiff_per_container p rec =
     (\<Sum>e\<leftarrow>recommendedEntries p rec.
        \<bar>of_int (sint (requestMilli (fst e) (fst (snd e)))) - of_int (sint (MilliValue (snd (snd e))))\<bar> /
        max (of_int (sint (requestMilli (fst e) (fst (snd e))))) 1)"

text \<open>
  What the code computes for one resource: with \<open>R\<close> the total request as a float64,
  raised to 1 if it is smaller, the float64 quotient of \<open>|R - recommended|\<close> by \<open>R\<close>. And
  the float64 sum of a sequence of terms, added from the left to 0.
\<close>

definition clampedRequest :: "Pod \<Rightarrow> RecommendedPodResources option \<Rightarrow> ResourceName \<Rightarrow> float64" where
  "clampedRequest p rec r = max (float64_of (totalRequest p rec r)) 1"

definition resourceTerm :: "Pod \<Rightarrow> RecommendedPodResources option \<Rightarrow> ResourceName \<Rightarrow> float64" where
  "resourceTerm p rec r =
     float64_div \<bar>float64_sub (clampedRequest p rec r) (float64_of (totalRecommended p rec r))\<bar>
                 (clampedRequest p rec r)"

definition float64_sum :: "float64 list \<Rightarrow> float64" where
  "float64_sum ts = fold (\<lambda>t d. float64_add d t) ts 0"

subsection \<open>Example pods\<close>

text \<open>
  Pod P1 requests 100m of cpu and is recommended 300m; pod P2 requests 500m and is
  recommended 450m; pod P0 declares no request and is recommended 5m. In the examples the
  map of totals is visited in the order in which its keys were inserted, or in the reverse
  of it.
\<close>

definition insertionOrder :: "(ResourceName \<times> int64) list \<Rightarrow> (ResourceName \<times> int64) list" where
  "insertionOrder m = m"

definition reverseOrder :: "(ResourceName \<times> int64) list \<Rightarrow> (ResourceName \<times> int64) list" where
  "reverseOrder m = rev m"

definition cpu_container :: "string \<Rightarrow> ResourceList \<Rightarrow> Container" where
  "cpu_container name requests = \<lparr>Container_Name = name, Requests = requests, Limits = None\<rparr>"

definition cpu_recommendation :: "string \<Rightarrow> Quantity \<Rightarrow> RecommendedPodResources option" where
  "cpu_recommendation name target =
     Some [\<lparr>ContainerName = name, Target = Some [(''cpu'', target)],
            LowerBound = Some [(''cpu'', target / 2)], UpperBound = Some [(''cpu'', target * 2)],
            UncappedTarget = Some [(''cpu'', target)]\<rparr>]"

definition example_pod :: "string \<Rightarrow> Container list \<Rightarrow> Pod" where
  "example_pod name cs =
     \<lparr>Pod_Name = name, GenerateName = '''', Pod_Namespace = ''default'', Annotations = None,
      Containers = cs, ContainerStatuses = [], StartTime = Some 0\<rparr>"

definition P1 :: Pod where
  "P1 = example_pod ''P1'' [cpu_container ''app'' (Some [(''cpu'', 100 / 1000)])]"

definition P2 :: Pod where
  "P2 = example_pod ''P2'' [cpu_container ''app'' (Some [(''cpu'', 500 / 1000)])]"

definition P0 :: Pod where
  "P0 = example_pod ''P0'' [cpu_container ''app'' None]"

definition identityProcessor ::
  "RecommendedPodResources option \<Rightarrow> PodResourcePolicy option \<Rightarrow>
   VerticalPodAutoscalerCondition list \<Rightarrow> Pod \<Rightarrow> error + RecommendedPodResources option" where
  "identityProcessor rec policy conds p = Inr rec"

definition rec5m :: "RecommendedPodResources option" where
  "rec5m = cpu_recommendation ''app'' (5 / 1000)"

definition rec200m :: "RecommendedPodResources option" where
  "rec200m = cpu_recommendation ''app'' (200 / 1000)"

definition rec300m :: "RecommendedPodResources option" where
  "rec300m = cpu_recommendation ''app'' (300 / 1000)"

definition rec450m :: "RecommendedPodResources option" where
  "rec450m = cpu_recommendation ''app'' (450 / 1000)"

definition example_calc :: UpdatePriorityCalculator where
  "example_calc = NewUpdatePriorityCalculator None [] None identityProcessor default_evictAfterOOMThreshold"

definition P3 :: Pod where
  "P3 = example_pod ''P3'' [cpu_container ''app'' (Some [(''cpu'', 100 / 1000)])]"

text \<open>P2, then P3, then P1 are added, each 13 hours after its start.\<close>

definition example_calc3 :: UpdatePriorityCalculator where
  "example_calc3 =
     AddPod insertionOrder
       (AddPod insertionOrder (AddPod insertionOrder example_calc P2 rec450m (13 * Hour))
               P3 rec200m (13 * Hour))
       P1 rec300m (13 * Hour)"

text \<open>
  Pod FL requests 100m of cpu and 100 bytes of memory and is recommended 101m and 109
  bytes, without bounds: the two terms of its resource difference are the doubles nearest
  to 0.01 and 0.09. Pod ORD has three resources, with the terms 0.1, 0.2 and 0.3.
\<close>

definition plain_recommendation :: "string \<Rightarrow> (ResourceName \<times> Quantity) list \<Rightarrow> RecommendedPodResources option" where
  "plain_recommendation name target =
     Some [\<lparr>ContainerName = name, Target = Some target, LowerBound = None, UpperBound = None,
            UncappedTarget = Some target\<rparr>]"

definition FL :: Pod where
  "FL = example_pod ''FL'' [cpu_container ''app'' (Some [(''cpu'', 100 / 1000), (''memory'', 100)])]"

definition recFL :: "RecommendedPodResources option" where
  "recFL = plain_recommendation ''app'' [(''cpu'', 101 / 1000), (''memory'', 109)]"

definition ORD :: Pod where
  "ORD = example_pod ''ORD''
           [cpu_container ''app'' (Some [(''cpu'', 1), (''memory'', 10), (''ephemeral-storage'', 10)])]"

definition recORD :: "RecommendedPodResources option" where
  "recORD = plain_recommendation ''app'' [(''cpu'', 11 / 10), (''memory'', 12), (''ephemeral-storage'', 13)]"

section \<open>The admission webhook (package logic)\<close>

subsection \<open>Formatting\<close>

text \<open>\<open>fmt.Sprintf("%d", i)\<close> for an index, and \<open>strings.Join\<close>.\<close>

definition digit_char :: "nat \<Rightarrow> char" where
  "digit_char d = ''0123456789'' ! d"

function show_nat :: "nat \<Rightarrow> string" where
  "show_nat n = (if n < 10 then [digit_char n] else show_nat (n div 10) @ [digit_char (n mod 10)])"
  by pat_completeness auto
termination
  by (relation "measure id") auto

declare show_nat.simps [simp del]

fun Join :: "string list \<Rightarrow> string \<Rightarrow> string" where
  "Join [] sep = ''''"
| "Join [x] sep = x"
| "Join (x # y # ys) sep = x @ sep @ Join (y # ys) sep"

subsection \<open>Autoscaler configs\<close>

record PodUpdatePolicy =
  UpdateMode :: "string option"

record CrossVersionObjectReference =
  Kind :: string
  Ref_Name :: string
  APIVersion :: string

record VerticalPodAutoscaler =
  UpdatePolicy :: "PodUpdatePolicy option"
  ResourcePolicy :: "PodResourcePolicy option"
  TargetRef :: "CrossVersionObjectReference option"

subsection \<open>Patches, requests, responses\<close>

datatype patchValue =
    ResourceRequirementsValue
  | ResourceListValue
  | QuantityString Quantity
  | StringValue string
  | StringMapValue "(string \<times> string) list"
  | PodUpdatePolicyValue PodUpdatePolicy

record patchRecord =
  Op :: string
  Path :: string
  Value :: patchValue

record ContainerResources =
  CR_Requests :: ResourceList
  CR_Limits :: ResourceList

type_synonym ContainerToAnnotationsMap = "(string \<times> string list) list"

record GroupVersionResource =
  Group :: string
  Version :: string
  Resource :: string

record AdmissionRequest =
  Request_Resource :: GroupVersionResource
  Request_Namespace :: string
  Operation :: string
  Object_Raw :: string

record AdmissionReview =
  Request :: "AdmissionRequest option"

record Status =
  Status_Status :: string
  Message :: string

record AdmissionResponse =
  Allowed :: bool
  Result :: "Status option"
  PatchType :: "string option"
  Patch :: "string option"

datatype AdmissionStatus = Status_Error | Status_Applied | Status_Skipped
datatype AdmissionResource = Resource_Unknown | Resource_Pod | Resource_Vpa

text \<open>
  What \<open>admit\<close> returns, and its call of \<open>metrics_admission.OnAdmittedPod\<close> when it
  makes one.
\<close>

record admitResult =
  response :: AdmissionResponse
  status :: AdmissionStatus
  resource :: AdmissionResource
  OnAdmittedPod :: "bool option"

text \<open>
  The collaborators of the server are interfaces of other packages and the JSON codec
  is Go's library: they are fields of the server, each a function that returns its
  result or an error.
\<close>

record AdmissionServer =
  GetContainersResourcesForPod ::
    "Pod \<Rightarrow> error + (ContainerResources list \<times> ContainerToAnnotationsMap option \<times> string)"
  podPreProcessor_Process :: "Pod \<Rightarrow> error + Pod"
  vpaPreProcessor_Process :: "VerticalPodAutoscaler \<Rightarrow> bool \<Rightarrow> error + VerticalPodAutoscaler"
  Unmarshal_AdmissionReview :: "string \<Rightarrow> error + AdmissionReview"
  Unmarshal_Pod :: "string \<Rightarrow> error + Pod"
  Unmarshal_VerticalPodAutoscaler :: "string \<Rightarrow> error + VerticalPodAutoscaler"
  Marshal :: "patchRecord list \<Rightarrow> error + string"

definition error_message :: "error \<Rightarrow> string" where
  "error_message e = (case e of Error msg \<Rightarrow> msg)"

subsection \<open>The pod path\<close>

definition getPatchInitializingEmptyResources :: "nat \<Rightarrow> patchRecord" where
  "getPatchInitializingEmptyResources i =
     \<lparr>Op = ''add'',
      Path = ''/spec/containers/'' @ show_nat i @ ''/resources'',
      Value = ResourceRequirementsValue\<rparr>"

definition getPatchInitializingEmptyResourcesSubfield :: "nat \<Rightarrow> string \<Rightarrow> patchRecord" where
  "getPatchInitializingEmptyResourcesSubfield i kind =
     \<lparr>Op = ''add'',
      Path = ''/spec/containers/'' @ show_nat i @ ''/resources/'' @ kind,
      Value = ResourceListValue\<rparr>"

definition getAddResourceRequirementValuePatch ::
  "nat \<Rightarrow> string \<Rightarrow> ResourceName \<Rightarrow> Quantity \<Rightarrow> patchRecord" where
  "getAddResourceRequirementValuePatch i kind resourceName quantity =
     \<lparr>Op = ''add'',
      Path = ''/spec/containers/'' @ show_nat i @ ''/resources/'' @ kind @ ''/'' @ resourceName,
      Value = QuantityString quantity\<rparr>"

definition appendPatchesAndAnnotations ::
  "patchRecord list \<Rightarrow> string list \<Rightarrow> ResourceList \<Rightarrow> nat \<Rightarrow> ResourceList \<Rightarrow> string \<Rightarrow> string \<Rightarrow>
   patchRecord list \<times> string list" where
  "appendPatchesAndAnnotations patches annotations current containerIndex resources fieldName resourceName =
     (let patches1 = (if current = None \<and> length (rangeRL resources) > 0
                      then patches @ [getPatchInitializingEmptyResourcesSubfield containerIndex fieldName]
                      else patches)
      in fold (\<lambda>entry (ps, as).
                 (ps @ [getAddResourceRequirementValuePatch containerIndex fieldName (fst entry) (snd entry)],
                  as @ [fst entry @ '' '' @ resourceName]))
              (rangeRL resources) (patches1, annotations))"

text \<open>\<open>pod.Spec.Containers[i]\<close> panics when \<open>i\<close> is out of range: the result is \<open>None\<close>.\<close>

definition getContainerPatch ::
  "Pod \<Rightarrow> nat \<Rightarrow> ContainerToAnnotationsMap \<Rightarrow> ContainerResources \<Rightarrow> (patchRecord list \<times> string) option" where
  "getContainerPatch p i annotationsPerContainer containerResources =
     (if i < length (Containers p)
      then (let container = Containers p ! i;
                patches = (if Limits container = None \<and> Requests container = None
                           then [getPatchInitializingEmptyResources i] else []);
                annotations = (case map_of annotationsPerContainer (Container_Name container) of
                                 Some found \<Rightarrow> found | None \<Rightarrow> []);
                (patches1, annotations1) =
                   appendPatchesAndAnnotations patches annotations (Requests container) i
                     (CR_Requests containerResources) ''requests'' ''request'';
                (patches2, annotations2) =
                   appendPatchesAndAnnotations patches1 annotations1 (Limits container) i
                     (CR_Limits containerResources) ''limits'' ''limit''
            in Some (patches2, ''container '' @ show_nat i @ '': '' @ Join annotations2 '', ''))
      else None)"

text \<open>The loop over \<open>containersResources\<close>, from index \<open>i\<close> on.\<close>

fun containerPatches ::
  "Pod \<Rightarrow> ContainerToAnnotationsMap \<Rightarrow> nat \<Rightarrow> ContainerResources list \<Rightarrow>
   patchRecord list \<Rightarrow> string list \<Rightarrow> (patchRecord list \<times> string list) option" where
  "containerPatches p annotationsPerContainer i [] patches updatesAnnotation =
     Some (patches, updatesAnnotation)"
| "containerPatches p annotationsPerContainer i (containerResources # rest) patches updatesAnnotation =
     (case getContainerPatch p i annotationsPerContainer containerResources of
        None \<Rightarrow> None
      | Some (newPatches, newUpdatesAnnotation) \<Rightarrow>
          containerPatches p annotationsPerContainer (Suc i) rest
            (patches @ newPatches) (updatesAnnotation @ [newUpdatesAnnotation]))"

text \<open>A pod without a name is named after its \<open>GenerateName\<close> and put in the namespace.\<close>

definition withGeneratedName :: "Pod \<Rightarrow> string \<Rightarrow> Pod" where
  "withGeneratedName pod0 namespace =
     (if length (Pod_Name pod0) = 0
      then pod0\<lparr>Pod_Name := GenerateName pod0 @ ''%'', Pod_Namespace := namespace\<rparr>
      else pod0)"

definition getPatchesForPodResourceRequest ::
  "AdmissionServer \<Rightarrow> string \<Rightarrow> string \<Rightarrow> (error + patchRecord list) option" where
  "getPatchesForPodResourceRequest s raw namespace =
     (case Unmarshal_Pod s raw of
        Inl err \<Rightarrow> Some (Inl err)
      | Inr pod0 \<Rightarrow>
          (let pod1 = withGeneratedName pod0 namespace
           in case GetContainersResourcesForPod s pod1 of
                Inl err \<Rightarrow> Some (Inl err)
              | Inr (containersResources, annotationsPerContainer0, vpaName) \<Rightarrow>
                  (case podPreProcessor_Process s pod1 of
                     Inl err \<Rightarrow> Some (Inl err)
                   | Inr pod2 \<Rightarrow>
                       (let annotationsPerContainer =
                              (case annotationsPerContainer0 of None \<Rightarrow> [] | Some m \<Rightarrow> m)
                        in case containerPatches pod2 annotationsPerContainer 0 containersResources [] [] of
                             None \<Rightarrow> None
                           | Some (patches, updatesAnnotation) \<Rightarrow>
                               (if length updatesAnnotation > 0
                                then (let vpaAnnotationValue =
                                            ''Pod resources updated by '' @ vpaName @ '': '' @
                                            Join updatesAnnotation ''; ''
                                      in if Annotations pod2 = None
                                         then Some (Inr (patches @
                                                [\<lparr>Op = ''add'', Path = ''/metadata/annotations'',
                                                  Value = StringMapValue [(''vpaUpdates'', vpaAnnotationValue)]\<rparr>]))
                                         else Some (Inr (patches @
                                                [\<lparr>Op = ''add'', Path = ''/metadata/annotations/vpaUpdates'',
                                                  Value = StringValue vpaAnnotationValue\<rparr>])))
                                else Some (Inr patches))))))"

subsection \<open>The config path\<close>

definition parseVPA :: "AdmissionServer \<Rightarrow> string \<Rightarrow> error + VerticalPodAutoscaler" where
  "parseVPA s raw = Unmarshal_VerticalPodAutoscaler s raw"

definition possibleUpdateModes :: "string list" where
  "possibleUpdateModes = [''Off'', ''Initial'', ''Recreate'', ''Auto'']"

definition possibleScalingModes :: "string list" where
  "possibleScalingModes = [''Auto'', ''Off'']"

text \<open>The loop over \<open>policy.MinAllowed\<close>: it returns at the first resource whose max is lower.\<close>

fun validateMinMax :: "(ResourceName \<times> Quantity) list \<Rightarrow> ResourceList \<Rightarrow> error option" where
  "validateMinMax [] maxAllowed = None"
| "validateMinMax (entry # rest) maxAllowed =
     (case lookupRL maxAllowed (fst entry) of
        Some max0 \<Rightarrow>
          if Cmp max0 (snd entry) < 0
          then Some (Error (''max resource for '' @ fst entry @ '' is lower than min''))
          else validateMinMax rest maxAllowed
      | None \<Rightarrow> validateMinMax rest maxAllowed)"

definition validateContainerPolicy :: "ContainerResourcePolicy \<Rightarrow> error option" where
  "validateContainerPolicy policy =
     (if Policy_ContainerName policy = '''' then Some (Error ''ContainerPolicies.ContainerName is required'')
      else case (case Mode policy of
                   Some mode \<Rightarrow>
                     if mode \<notin> set possibleScalingModes
                     then Some (Error (''unexpected Mode value '' @ mode)) else None
                 | None \<Rightarrow> None) of
             Some err \<Rightarrow> Some err
           | None \<Rightarrow> validateMinMax (rangeRL (MinAllowed policy)) (MaxAllowed policy))"

text \<open>The loop over the container policies: it returns at the first error.\<close>

fun validateContainerPolicies :: "ContainerResourcePolicy list \<Rightarrow> error option" where
  "validateContainerPolicies [] = None"
| "validateContainerPolicies (policy # rest) =
     (case validateContainerPolicy policy of
        Some err \<Rightarrow> Some err
      | None \<Rightarrow> validateContainerPolicies rest)"

definition validateUpdatePolicy :: "VerticalPodAutoscaler \<Rightarrow> error option" where
  "validateUpdatePolicy vpa =
     (case UpdatePolicy vpa of
        None \<Rightarrow> None
      | Some updatePolicy \<Rightarrow>
          (case UpdateMode updatePolicy of
             None \<Rightarrow> Some (Error ''UpdateMode is required if UpdatePolicy is used'')
           | Some mode \<Rightarrow>
               if mode \<notin> set possibleUpdateModes
               then Some (Error (''unexpected UpdateMode value '' @ mode)) else None))"

definition validateVPA :: "VerticalPodAutoscaler \<Rightarrow> bool \<Rightarrow> error option" where
  "validateVPA vpa isCreate =
     (case validateUpdatePolicy vpa of
        Some err \<Rightarrow> Some err
      | None \<Rightarrow>
          (case (case ResourcePolicy vpa of
                   None \<Rightarrow> None
                 | Some resourcePolicy \<Rightarrow> validateContainerPolicies resourcePolicy) of
             Some err \<Rightarrow> Some err
           | None \<Rightarrow>
               if isCreate \<and> TargetRef vpa = None
               then Some (Error ''TargetRef is required. If you're using v1beta1 version of the API, please migrate to v1.'')
               else None))"

definition getPatchesForVPADefaults :: "AdmissionServer \<Rightarrow> string \<Rightarrow> bool \<Rightarrow> error + patchRecord list" where
  "getPatchesForVPADefaults s raw isCreate =
     (case parseVPA s raw of
        Inl err \<Rightarrow> Inl err
      | Inr vpa0 \<Rightarrow>
          (case vpaPreProcessor_Process s vpa0 isCreate of
             Inl err \<Rightarrow> Inl err
           | Inr vpa \<Rightarrow>
               (case validateVPA vpa isCreate of
                  Some err \<Rightarrow> Inl err
                | None \<Rightarrow>
                    Inr (if UpdatePolicy vpa = None
                         then [\<lparr>Op = ''add'', Path = ''/spec/updatePolicy'',
                                Value = PodUpdatePolicyValue \<lparr>UpdateMode = Some ''Auto''\<rparr>\<rparr>]
                         else []))))"

subsection \<open>admit\<close>

definition podResource :: GroupVersionResource where
  "podResource = \<lparr>Group = '''', Version = ''v1'', Resource = ''pods''\<rparr>"

definition isVpaGroupResource :: "GroupVersionResource \<Rightarrow> bool" where
  "isVpaGroupResource r = (Group r = ''autoscaling.k8s.io'' \<and> Resource r = ''verticalpodautoscalers'')"

definition allowedResponse :: AdmissionResponse where
  "allowedResponse = \<lparr>Allowed = True, Result = None, PatchType = None, Patch = None\<rparr>"

text \<open>
  The tail of \<open>admit\<close>, once the patches (or the error) and the response are known.
\<close>

definition admit_finish ::
  "AdmissionServer \<Rightarrow> AdmissionResponse \<Rightarrow> AdmissionResource \<Rightarrow> error + patchRecord list \<Rightarrow> admitResult" where
  "admit_finish s response0 resource0 outcome =
     (case outcome of
        Inl err \<Rightarrow>
          \<lparr>response = response0, status = Status_Error, resource = resource0, OnAdmittedPod = None\<rparr>
      | Inr patches \<Rightarrow>
          (if length patches > 0
           then (case Marshal s patches of
                   Inl err \<Rightarrow>
                     \<lparr>response = response0, status = Status_Error, resource = resource0,
                      OnAdmittedPod = None\<rparr>
                 | Inr patch \<Rightarrow>
                     \<lparr>response = response0\<lparr>PatchType := Some ''JSONPatch'', Patch := Some patch\<rparr>,
                      status = Status_Applied, resource = resource0,
                      OnAdmittedPod = (if resource0 = Resource_Pod then Some True else None)\<rparr>)
           else \<lparr>response = response0, status = Status_Skipped, resource = resource0,
                 OnAdmittedPod = (if resource0 = Resource_Pod then Some False else None)\<rparr>))"

text \<open>
  \<open>admit\<close>. \<open>None\<close> is a panic: \<open>ar.Request\<close> is a pointer that the code dereferences
  unchecked, and the pod path indexes the pod's containers. The error of the last branch
  is only logged; its text is abbreviated here.
\<close>

definition admit :: "AdmissionServer \<Rightarrow> string \<Rightarrow> admitResult option" where
  "admit s data =
     (case Unmarshal_AdmissionReview s data of
        Inl err \<Rightarrow>
          Some \<lparr>response = allowedResponse, status = Status_Error, resource = Resource_Unknown,
                OnAdmittedPod = None\<rparr>
      | Inr ar \<Rightarrow>
          (case Request ar of
             None \<Rightarrow> None
           | Some req \<Rightarrow>
               if Request_Resource req = podResource
               then (case getPatchesForPodResourceRequest s (Object_Raw req) (Request_Namespace req) of
                       None \<Rightarrow> None
                     | Some outcome \<Rightarrow> Some (admit_finish s allowedResponse Resource_Pod outcome))
               else if isVpaGroupResource (Request_Resource req)
               then (let outcome = getPatchesForVPADefaults s (Object_Raw req) (Operation req = ''CREATE'')
                     in case outcome of
                          Inl err \<Rightarrow>
                            Some (admit_finish s
                                    (allowedResponse\<lparr>Result := Some \<lparr>Status_Status = ''Failure'',
                                                                      Message = error_message err\<rparr>,
                                                      Allowed := False\<rparr>)
                                    Resource_Vpa outcome)
                        | Inr patches \<Rightarrow> Some (admit_finish s allowedResponse Resource_Vpa outcome))
               else Some (admit_finish s allowedResponse Resource_Unknown
                            (Inl (Error ''expected the resource to be one of: pods, verticalpodautoscalers'')))))"

subsection \<open>Reading the webhook: what validation rejects, what the pod patch holds\<close>

text \<open>
  The four ways in which a config fails validation: an update policy without an update
  mode or with one outside the enumeration; a container policy with an empty container
  name or a scaling mode outside the enumeration; a resource with a minimum and a maximum
  allowed whose maximum is below the minimum; a create without a target reference.
\<close>

definition validation_fails :: "VerticalPodAutoscaler \<Rightarrow> bool \<Rightarrow> bool" where
  "validation_fails vpa isCreate =
     ((\<exists>updatePolicy. UpdatePolicy vpa = Some updatePolicy \<and>
          (UpdateMode updatePolicy = None \<or>
           (\<exists>mode. UpdateMode updatePolicy = Some mode \<and> mode \<notin> set possibleUpdateModes))) \<or>
      (\<exists>resourcePolicy. ResourcePolicy vpa = Some resourcePolicy \<and>
          (\<exists>policy\<in>set resourcePolicy.
              Policy_ContainerName policy = '''' \<or>
              (\<exists>mode. Mode policy = Some mode \<and> mode \<notin> set possibleScalingModes) \<or>
              (\<exists>entry\<in>set (rangeRL (MinAllowed policy)).
                 \<exists>max0. lookupRL (MaxAllowed policy) (fst entry) = Some max0 \<and> max0 < snd entry))) \<or>
      (isCreate \<and> TargetRef vpa = None))"

text \<open>
  The specification's condition for denying a config: validation of the submitted config
  fails. The condition of the code: the body does not parse, the pre-processor fails, or
  validation of the pre-processed config fails.
\<close>

definition spec_config_denied :: "AdmissionServer \<Rightarrow> string \<Rightarrow> bool \<Rightarrow> bool" where
  "spec_config_denied s raw isCreate =
     (case parseVPA s raw of Inl err \<Rightarrow> False | Inr vpa \<Rightarrow> validation_fails vpa isCreate)"

definition config_rejected :: "AdmissionServer \<Rightarrow> string \<Rightarrow> bool \<Rightarrow> bool" where
  "config_rejected s raw isCreate =
     (case parseVPA s raw of
        Inl err \<Rightarrow> True
      | Inr vpa0 \<Rightarrow>
          (case vpaPreProcessor_Process s vpa0 isCreate of
             Inl err \<Rightarrow> True
           | Inr vpa \<Rightarrow> validation_fails vpa isCreate))"

text \<open>
  The patch of a pod whose containers declare requests and no limits, for recommended
  requests only: per container the \<open>add\<close> of each recommended request, then the
  annotation.
\<close>

definition requestPatches :: "nat \<Rightarrow> ContainerResources \<Rightarrow> patchRecord list" where
  "requestPatches i containerResources =
     map (\<lambda>entry. \<lparr>Op = ''add'',
                   Path = ''/spec/containers/'' @ show_nat i @ ''/resources/requests/'' @ fst entry,
                   Value = QuantityString (snd entry)\<rparr>)
         (rangeRL (CR_Requests containerResources))"

definition requestAnnotation :: "Pod \<Rightarrow> ContainerToAnnotationsMap \<Rightarrow> nat \<Rightarrow> ContainerResources \<Rightarrow> string" where
  "requestAnnotation p annotationsPerContainer i containerResources =
     ''container '' @ show_nat i @ '': '' @
     Join ((case map_of annotationsPerContainer (Container_Name (Containers p ! i)) of
              Some found \<Rightarrow> found | None \<Rightarrow> []) @
           map (\<lambda>entry. fst entry @ '' request'') (rangeRL (CR_Requests containerResources)))
          '', ''"

definition vpaUpdatesPatch :: "Pod \<Rightarrow> string \<Rightarrow> string list \<Rightarrow> patchRecord" where
  "vpaUpdatesPatch p vpaName updatesAnnotation =
     (if Annotations p = None
      then \<lparr>Op = ''add'', Path = ''/metadata/annotations'',
            Value = StringMapValue [(''vpaUpdates'',
                      ''Pod resources updated by '' @ vpaName @ '': '' @ Join updatesAnnotation ''; '')]\<rparr>
      else \<lparr>Op = ''add'', Path = ''/metadata/annotations/vpaUpdates'',
            Value = StringValue
                      (''Pod resources updated by '' @ vpaName @ '': '' @ Join updatesAnnotation ''; '')\<rparr>)"

definition requestsOnlyPatch ::
  "Pod \<Rightarrow> ContainerToAnnotationsMap \<Rightarrow> string \<Rightarrow> ContainerResources list \<Rightarrow> patchRecord list" where
  "requestsOnlyPatch p annotationsPerContainer vpaName containersResources =
     concat (map (\<lambda>ic. requestPatches (fst ic) (snd ic)) (enumerate 0 containersResources)) @
     [vpaUpdatesPatch p vpaName
        (map (\<lambda>ic. requestAnnotation p annotationsPerContainer (fst ic) (snd ic))
             (enumerate 0 containersResources))]"

definition limitsPath :: "nat \<Rightarrow> string" where
  "limitsPath i = ''/spec/containers/'' @ show_nat i @ ''/resources/limits''"

definition podErrorResult :: admitResult where
  "podErrorResult =
     \<lparr>response = allowedResponse, status = Status_Error, resource = Resource_Pod, OnAdmittedPod = None\<rparr>"

subsection \<open>An example server\<close>

text \<open>
  The example codec decodes the documents of the examples and fails on every other
  input; the provider recommends 300m of cpu for pod P1 on behalf of the config
  \<open>my-vpa\<close>; the pre-processors return their argument.
\<close>

definition example_vpa :: VerticalPodAutoscaler where
  "example_vpa =
     \<lparr>UpdatePolicy = None,
      ResourcePolicy = Some [\<lparr>Policy_ContainerName = ''app'', Mode = Some ''Auto'',
                              MinAllowed = Some [(''cpu'', 1 / 10)], MaxAllowed = Some [(''cpu'', 1)]\<rparr>],
      TargetRef = Some \<lparr>Kind = ''Deployment'', Ref_Name = ''app'', APIVersion = ''apps/v1''\<rparr>\<rparr>"

definition inverted_vpa :: VerticalPodAutoscaler where
  "inverted_vpa =
     example_vpa\<lparr>ResourcePolicy :=
        Some [\<lparr>Policy_ContainerName = ''app'', Mode = Some ''Auto'',
               MinAllowed = Some [(''cpu'', 2)], MaxAllowed = Some [(''cpu'', 1)]\<rparr>]\<rparr>"

definition review_of :: "GroupVersionResource \<Rightarrow> string \<Rightarrow> AdmissionReview" where
  "review_of r raw =
     \<lparr>Request = Some \<lparr>Request_Resource = r, Request_Namespace = ''default'',
                       Operation = ''CREATE'', Object_Raw = raw\<rparr>\<rparr>"

definition vpaResource :: GroupVersionResource where
  "vpaResource = \<lparr>Group = ''autoscaling.k8s.io'', Version = ''v1'', Resource = ''verticalpodautoscalers''\<rparr>"

definition example_server :: AdmissionServer where
  "example_server =
     \<lparr>GetContainersResourcesForPod =
        (\<lambda>p. if Pod_Name p = ''P1''
              then Inr ([\<lparr>CR_Requests = Some [(''cpu'', 300 / 1000)], CR_Limits = None\<rparr>], None, ''my-vpa'')
              else Inl (Error ''no recommendation'')),
      podPreProcessor_Process = Inr,
      vpaPreProcessor_Process = (\<lambda>vpa isCreate. Inr vpa),
      Unmarshal_AdmissionReview =
        (\<lambda>data. if data = ''review: pod P1'' then Inr (review_of podResource ''pod P1'')
                 else if data = ''review: pod P2'' then Inr (review_of podResource ''pod P2'')
                 else if data = ''review: pod {'' then Inr (review_of podResource ''{'')
                 else if data = ''review: vpa'' then Inr (review_of vpaResource ''vpa'')
                 else if data = ''review: inverted vpa'' then Inr (review_of vpaResource ''inverted vpa'')
                 else if data = ''review: vpa {'' then Inr (review_of vpaResource ''{'')
                 else Inl (Error ''unexpected end of JSON input'')),
      Unmarshal_Pod =
        (\<lambda>raw. if raw = ''pod P1'' then Inr P1
                else if raw = ''pod P2'' then Inr P2
                else Inl (Error ''unexpected end of JSON input'')),
      Unmarshal_VerticalPodAutoscaler =
        (\<lambda>raw. if raw = ''vpa'' then Inr example_vpa
                else if raw = ''inverted vpa'' then Inr inverted_vpa
                else Inl (Error ''unexpected end of JSON input'')),
      Marshal = (\<lambda>patches. Inr (concat (map Path patches)))\<rparr>"

section \<open>Limit ranges (package limitrange)\<close>

record LimitRangeItem =
  Item_Type :: string
  Item_Max :: ResourceList
  Item_Min :: ResourceList
  Item_Default :: ResourceList

text \<open>A \<open>LimitRange\<close> is read through its \<open>Spec.Limits\<close> only.\<close>

type_synonym LimitRange = "LimitRangeItem list"

definition ResourceCPU :: ResourceName where
  "ResourceCPU = ''cpu''"

definition ResourceMemory :: ResourceName where
  "ResourceMemory = ''memory''"

text \<open>
  The closure \<open>updatedResult\<close>. \<open>DeepCopy\<close> of a map is the map; \<open>result[k] = v\<close> replaces
  or adds the entry of \<open>k\<close>.
\<close>

definition updatedResult ::
  "ResourceList \<Rightarrow> ResourceList \<Rightarrow> ResourceName \<Rightarrow> (Quantity \<Rightarrow> Quantity \<Rightarrow> Quantity) \<Rightarrow> ResourceList" where
  "updatedResult result0 lrItem resourceName picker =
     (case lrItem of
        None \<Rightarrow> result0
      | Some lr \<Rightarrow>
          (case result0 of
             None \<Rightarrow> Some lr
           | Some res \<Rightarrow>
               (case map_of lr resourceName of
                  Some lrResource \<Rightarrow>
                    (case map_of res resourceName of
                       None \<Rightarrow> Some (AList.update resourceName lrResource res)
                     | Some resultResource \<Rightarrow>
                         Some (AList.update resourceName (picker resultResource lrResource) res))
                | None \<Rightarrow> Some res)))"

definition pickLowerMax :: "Quantity \<Rightarrow> Quantity \<Rightarrow> Quantity" where
  "pickLowerMax q1 q2 = (if Cmp q1 q2 < 0 then q1 else q2)"

definition chooseHigherMin :: "Quantity \<Rightarrow> Quantity \<Rightarrow> Quantity" where
  "chooseHigherMin q1 q2 = (if Cmp q1 q2 > 0 then q1 else q2)"

text \<open>The body of the inner loop, on one item of one limit range.\<close>

definition limitStep :: "string \<Rightarrow> LimitRangeItem \<Rightarrow> LimitRangeItem \<Rightarrow> LimitRangeItem" where
  "limitStep limitType lri result0 =
     (if Item_Type lri = limitType \<and>
         (Item_Max lri \<noteq> None \<or> Item_Default lri \<noteq> None \<or> Item_Min lri \<noteq> None)
      then (let r1 = (if Item_Default lri \<noteq> None then result0\<lparr>Item_Default := Item_Default lri\<rparr>
                      else result0);
                r2 = r1\<lparr>Item_Max := updatedResult (Item_Max r1) (Item_Max lri) ResourceCPU pickLowerMax\<rparr>;
                r3 = r2\<lparr>Item_Max := updatedResult (Item_Max r2) (Item_Max lri) ResourceMemory pickLowerMax\<rparr>;
                r4 = r3\<lparr>Item_Min := updatedResult (Item_Min r3) (Item_Min lri) ResourceCPU chooseHigherMin\<rparr>
            in r4\<lparr>Item_Min := updatedResult (Item_Min r4) (Item_Min lri) ResourceMemory chooseHigherMin\<rparr>)
      else result0)"

text \<open>The lister of limit ranges is a field of the checker: it lists a namespace or fails.\<close>

definition getLimitRangeItem ::
  "(string \<Rightarrow> error + LimitRange list) \<Rightarrow> string \<Rightarrow> string \<Rightarrow> error + LimitRangeItem option" where
  "getLimitRangeItem limitRangeLister namespace limitType =
     (case limitRangeLister namespace of
        Inl err \<Rightarrow> Inl (Error (''error loading limit ranges: '' @ error_message err))
      | Inr limitRanges \<Rightarrow>
          (let result0 = fold (\<lambda>lr acc. fold (limitStep limitType) lr acc) limitRanges
                           \<lparr>Item_Type = limitType, Item_Max = None, Item_Min = None, Item_Default = None\<rparr>
           in if Item_Min result0 \<noteq> None \<or> Item_Max result0 \<noteq> None \<or> Item_Default result0 \<noteq> None
              then Inr (Some result0) else Inr None))"

definition GetContainerLimitRangeItem ::
  "(string \<Rightarrow> error + LimitRange list) \<Rightarrow> string \<Rightarrow> error + LimitRangeItem option" where
  "GetContainerLimitRangeItem limitRangeLister namespace =
     getLimitRangeItem limitRangeLister namespace ''Container''"

definition GetPodLimitRangeItem ::
  "(string \<Rightarrow> error + LimitRange list) \<Rightarrow> string \<Rightarrow> error + LimitRangeItem option" where
  "GetPodLimitRangeItem limitRangeLister namespace =
     getLimitRangeItem limitRangeLister namespace ''Pod''"

subsection \<open>Reading the combined item\<close>

text \<open>
  The items of the requested type that set a minimum, a maximum or a default, in the
  order of the listing; the smallest and the largest of a list of quantities (none for
  the empty list); the last default that is set.
\<close>

definition qualifies :: "string \<Rightarrow> LimitRangeItem \<Rightarrow> bool" where
  "qualifies limitType lri =
     (Item_Type lri = limitType \<and>
      (Item_Max lri \<noteq> None \<or> Item_Default lri \<noteq> None \<or> Item_Min lri \<noteq> None))"

definition itemsOfType :: "string \<Rightarrow> LimitRange list \<Rightarrow> LimitRangeItem list" where
  "itemsOfType limitType limitRanges = filter (qualifies limitType) (concat limitRanges)"

text \<open>How \<open>updatedResult\<close> combines the entry of the result with the entry of an item.\<close>

definition combine ::
  "(Quantity \<Rightarrow> Quantity \<Rightarrow> Quantity) \<Rightarrow> Quantity option \<Rightarrow> Quantity option \<Rightarrow> Quantity option" where
  "combine picker a b =
     (case b of None \<Rightarrow> a | Some q \<Rightarrow> (case a of None \<Rightarrow> Some q | Some x \<Rightarrow> Some (picker x q)))"

definition opt_list :: "Quantity option \<Rightarrow> Quantity list" where
  "opt_list a = (case a of None \<Rightarrow> [] | Some x \<Rightarrow> [x])"

definition smallest :: "Quantity list \<Rightarrow> Quantity option" where
  "smallest qs = (if qs = [] then None else Some (Min (set qs)))"

definition largest :: "Quantity list \<Rightarrow> Quantity option" where
  "largest qs = (if qs = [] then None else Some (Max (set qs)))"

definition maximaOf :: "LimitRangeItem list \<Rightarrow> ResourceName \<Rightarrow> Quantity list" where
  "maximaOf items r = List.map_filter (\<lambda>lri. lookupRL (Item_Max lri) r) items"

definition minimaOf :: "LimitRangeItem list \<Rightarrow> ResourceName \<Rightarrow> Quantity list" where
  "minimaOf items r = List.map_filter (\<lambda>lri. lookupRL (Item_Min lri) r) items"

definition lastDefault :: "LimitRangeItem list \<Rightarrow> ResourceList" where
  "lastDefault items =
     (if filter (\<lambda>lri. Item_Default lri \<noteq> None) items = [] then None
      else Item_Default (last (filter (\<lambda>lri. Item_Default lri \<noteq> None) items)))"

subsection \<open>Example limit ranges\<close>

definition example_limitRanges :: "LimitRange list" where
  "example_limitRanges =
     [[\<lparr>Item_Type = ''Container'', Item_Max = Some [(''cpu'', 4), (''memory'', 8)],
        Item_Min = Some [(''cpu'', 1 / 10)], Item_Default = Some [(''cpu'', 1)]\<rparr>,
       \<lparr>Item_Type = ''Pod'', Item_Max = Some [(''cpu'', 1)], Item_Min = None, Item_Default = None\<rparr>],
      [\<lparr>Item_Type = ''Container'', Item_Max = Some [(''cpu'', 2), (''memory'', 16)],
        Item_Min = Some [(''cpu'', 1 / 5), (''memory'', 1)], Item_Default = Some [(''cpu'', 1 / 2)]\<rparr>,
       \<lparr>Item_Type = ''Container'', Item_Max = None, Item_Min = None, Item_Default = None\<rparr>]]"

definition example_lister :: "string \<Rightarrow> error + LimitRange list" where
  "example_lister namespace =
     (if namespace = ''default'' then Inr example_limitRanges
      else if namespace = ''empty'' then Inr []
      else Inl (Error ''not synced''))"

section \<open>The recommender (package routines)\<close>

subsection \<open>Raw recommendations and the policy capping\<close>

text \<open>
  \<open>logic.RecommendedPodResources\<close> maps a container name to the three raw estimates,
  each a \<open>model.Resources\<close> (resource amounts as int64). \<open>model.ResourcesAsResourceList\<close>
  belongs to another package: it is the parameter \<open>asList\<close> of what follows.
\<close>

type_synonym Resources = "(ResourceName \<times> int64) list"

record RawContainerResources =
  Raw_Target :: Resources
  Raw_LowerBound :: Resources
  Raw_UpperBound :: Resources

type_synonym RawPodResources = "(string \<times> RawContainerResources) list"

type_synonym VpaID = "string \<times> string"

text \<open>The list that the loop of \<open>getCappedRecommendation\<close> builds, one entry per container.\<close>

definition containerResourcesOf ::
  "(Resources \<Rightarrow> ResourceList) \<Rightarrow> RawPodResources \<Rightarrow> RecommendedContainerResources list" where
  "containerResourcesOf asList resources =
     map (\<lambda>entry. \<lparr>ContainerName = fst entry,
                   Target = asList (Raw_Target (snd entry)),
                   LowerBound = asList (Raw_LowerBound (snd entry)),
                   UpperBound = asList (Raw_UpperBound (snd entry)),
                   UncappedTarget = asList (Raw_Target (snd entry))\<rparr>)
         resources"

text \<open>
  \<open>getCappedRecommendation\<close>, with \<open>vpa_utils.ApplyVPAPolicy\<close> as its parameter \<open>apply\<close>:
  when the policy cannot be applied, the recommendation is returned as built.
\<close>

definition getCappedRecommendation ::
  "(RecommendedPodResources option \<Rightarrow> PodResourcePolicy option \<Rightarrow> error + RecommendedPodResources option) \<Rightarrow>
   (Resources \<Rightarrow> ResourceList) \<Rightarrow> VpaID \<Rightarrow> RawPodResources \<Rightarrow> PodResourcePolicy option \<Rightarrow>
   RecommendedPodResources option" where
  "getCappedRecommendation apply asList vpaID resources policy =
     (let recommendation0 = Some (containerResourcesOf asList resources)
      in case apply recommendation0 policy of
           Inl err \<Rightarrow> recommendation0
         | Inr cappedRecommendation \<Rightarrow> cappedRecommendation)"

text \<open>
  Modelled from the spec: \<open>vpa_utils.ApplyVPAPolicy\<close>, whose source is in another
  package. Of the capping pipeline it is the part driven by the config's policy: the
  containers whose scaling mode is \<open>Off\<close> are dropped; Target, LowerBound and UpperBound are
  clamped per resource to the policy's minimum and maximum, and an upper bound that ends
  up below the lower bound is raised to it; UncappedTarget is the target before capping
  and is preserved. A nil recommendation stays nil and a nil policy changes nothing.
\<close>

definition GetContainerResourcePolicy :: "string \<Rightarrow> PodResourcePolicy \<Rightarrow> ContainerResourcePolicy option" where
  "GetContainerResourcePolicy containerName policy =
     find (\<lambda>containerPolicy. Policy_ContainerName containerPolicy = containerName) policy"

definition clampQuantity :: "ContainerResourcePolicy \<Rightarrow> ResourceName \<Rightarrow> Quantity \<Rightarrow> Quantity" where
  "clampQuantity containerPolicy r q =
     (let q1 = (case lookupRL (MinAllowed containerPolicy) r of Some lo \<Rightarrow> max q lo | None \<Rightarrow> q)
      in case lookupRL (MaxAllowed containerPolicy) r of Some hi \<Rightarrow> min q1 hi | None \<Rightarrow> q1)"

definition clampList :: "ContainerResourcePolicy \<Rightarrow> ResourceList \<Rightarrow> ResourceList" where
  "clampList containerPolicy rl =
     map_option (map (\<lambda>entry. (fst entry, clampQuantity containerPolicy (fst entry) (snd entry)))) rl"

definition raiseToLower :: "ResourceList \<Rightarrow> ResourceList \<Rightarrow> ResourceList" where
  "raiseToLower lower upper =
     map_option (map (\<lambda>entry. (fst entry,
                               (case lookupRL lower (fst entry) of
                                  Some lo \<Rightarrow> max (snd entry) lo
                                | None \<Rightarrow> snd entry)))) upper"

definition capContainer :: "PodResourcePolicy \<Rightarrow> RecommendedContainerResources \<Rightarrow> RecommendedContainerResources" where
  "capContainer policy containerRec =
     (case GetContainerResourcePolicy (ContainerName containerRec) policy of
        None \<Rightarrow> containerRec
      | Some containerPolicy \<Rightarrow>
          containerRec
            \<lparr>Target := clampList containerPolicy (Target containerRec),
             LowerBound := clampList containerPolicy (LowerBound containerRec),
             UpperBound := raiseToLower (clampList containerPolicy (LowerBound containerRec))
                             (clampList containerPolicy (UpperBound containerRec))\<rparr>)"

definition scalingOff :: "PodResourcePolicy \<Rightarrow> RecommendedContainerResources \<Rightarrow> bool" where
  "scalingOff policy containerRec =
     (case GetContainerResourcePolicy (ContainerName containerRec) policy of
        None \<Rightarrow> False
      | Some containerPolicy \<Rightarrow> Mode containerPolicy = Some ''Off'')"

definition ApplyVPAPolicy ::
  "RecommendedPodResources option \<Rightarrow> PodResourcePolicy option \<Rightarrow> error + RecommendedPodResources option" where
  "ApplyVPAPolicy podRecommendation policy =
     (case podRecommendation of
        None \<Rightarrow> Inr None
      | Some containerRecommendations \<Rightarrow>
          (case policy of
             None \<Rightarrow> Inr (Some containerRecommendations)
           | Some p \<Rightarrow>
               Inr (Some (map (capContainer p)
                             (filter (\<lambda>containerRec. \<not> scalingOff p containerRec)
                                     containerRecommendations)))))"

subsection \<open>The state of the recommender and its collaborators\<close>

record VerticalPodAutoscalerStatus =
  Status_Recommendation :: "RecommendedPodResources option"
  Status_Conditions :: "VerticalPodAutoscalerCondition list"

record ObservedVpa =
  Observed_Namespace :: string
  Observed_Name :: string
  Observed_ResourcePolicy :: "PodResourcePolicy option"
  Observed_Status :: VerticalPodAutoscalerStatus

text \<open>
  What the recommender does to the world outside, in the order in which it does it: the
  calls of the feeder, of the checkpoint writer and of the cluster state's collection, the
  steps the execution timer observes, and the writes of a config's status.
\<close>

datatype event =
    Call_LoadVPAs
  | Call_LoadPods
  | Call_LoadRealTimeMetrics
  | ObserveStep string
  | ObserveTotal
  | PatchVpaStatus VpaID VerticalPodAutoscalerStatus
  | Call_StoreCheckpoints Time Time int
  | Call_GarbageCollectCheckpoints
  | Call_GarbageCollectAggregateCollectionStates Time
  | Call_cancelFunc

text \<open>
  The cluster state: the observed configs, the configs of the model by key, the keys of
  the configs with matching pods, and the rest (pods and aggregates), which only the
  collaborators read.
\<close>

record ('vpa, 'rest) ClusterState =
  ObservedVpas :: "ObservedVpa list"
  Vpas :: "(VpaID \<times> 'vpa) list"
  VpasWithMatchingPods :: "VpaID list"
  otherState :: 'rest

text \<open>
  The methods of the feeder, of the checkpoint writer, of the estimator and of the model's
  \<open>Vpa\<close> and cluster state belong to other packages; they are the fields of this record,
  with the two flags of the package.
\<close>

record ('vpa, 'rest) collaborators =
  LoadVPAs :: "('vpa, 'rest) ClusterState \<Rightarrow> ('vpa, 'rest) ClusterState"
  LoadPods :: "('vpa, 'rest) ClusterState \<Rightarrow> ('vpa, 'rest) ClusterState"
  LoadRealTimeMetrics :: "('vpa, 'rest) ClusterState \<Rightarrow> ('vpa, 'rest) ClusterState"
  GarbageCollectCheckpoints :: "('vpa, 'rest) ClusterState \<Rightarrow> ('vpa, 'rest) ClusterState"
  StoreCheckpoints :: "('vpa, 'rest) ClusterState \<Rightarrow> Time \<Rightarrow> Time \<Rightarrow> int \<Rightarrow> ('vpa, 'rest) ClusterState \<times> error option"
  GarbageCollectAggregateCollectionStates :: "('vpa, 'rest) ClusterState \<Rightarrow> Time \<Rightarrow> ('vpa, 'rest) ClusterState"
  RecordRecommendation :: "('vpa, 'rest) ClusterState \<Rightarrow> 'vpa \<Rightarrow> Time \<Rightarrow> ('vpa, 'rest) ClusterState \<times> error option"
  GetRecommendedPodResources :: "'vpa \<Rightarrow> RawPodResources"
  Vpa_ID :: "'vpa \<Rightarrow> VpaID"
  UpdateRecommendation :: "'vpa \<Rightarrow> RecommendedPodResources option \<Rightarrow> 'vpa"
  UpdateConditions :: "'vpa \<Rightarrow> bool \<Rightarrow> 'vpa"
  AsStatus :: "'vpa \<Rightarrow> VerticalPodAutoscalerStatus"
  ResourcesAsResourceList :: "Resources \<Rightarrow> ResourceList"
  checkpointsWriteTimeout :: Duration
  minCheckpointsPerRun :: int

text \<open>
  The recommender, with the log of its events (oldest first) and the clock: \<open>time.Now()\<close>
  returns the next reading of \<open>clock\<close>.
\<close>

record ('vpa, 'rest) recommender =
  clusterState :: "('vpa, 'rest) ClusterState"
  checkpointsGCInterval :: Duration
  lastCheckpointGC :: Time
  useCheckpoints :: bool
  lastAggregateContainerStateGC :: Time
  events :: "event list"
  clock :: "nat \<Rightarrow> Time"
  reads :: nat

definition AggregateContainerStateGCInterval :: Duration where
  "AggregateContainerStateGCInterval = 1 * Hour"

definition time_Now :: "('vpa, 'rest) recommender \<Rightarrow> Time \<times> ('vpa, 'rest) recommender" where
  "time_Now r = (clock r (reads r), r\<lparr>reads := Suc (reads r)\<rparr>)"

definition emit :: "event list \<Rightarrow> ('vpa, 'rest) recommender \<Rightarrow> ('vpa, 'rest) recommender" where
  "emit es r = r\<lparr>events := events r @ es\<rparr>"

text \<open>
  Modelled from the spec: \<open>vpa_utils.UpdateVpaStatusIfNeeded\<close>, whose source is in another
  package: the status is written onto the config only if it differs from the observed
  status.
\<close>

definition UpdateVpaStatusIfNeeded ::
  "VpaID \<Rightarrow> VerticalPodAutoscalerStatus \<Rightarrow> VerticalPodAutoscalerStatus \<Rightarrow> event list" where
  "UpdateVpaStatusIfNeeded vpaID newStatus oldStatus =
     (if newStatus \<noteq> oldStatus then [PatchVpaStatus vpaID newStatus] else [])"

subsection \<open>UpdateVPAs, MaintainCheckpoints, GarbageCollect, RunOnce\<close>

text \<open>
  One pass of the loop of \<open>UpdateVPAs\<close>. The \<open>Vpa\<close> of the model is a pointer into the
  cluster state: its updates are stored back under its key. Logging and the object
  counter are left out.
\<close>

definition updateVPA ::
  "('vpa, 'rest) collaborators \<Rightarrow> ObservedVpa \<Rightarrow> ('vpa, 'rest) recommender \<Rightarrow> ('vpa, 'rest) recommender" where
  "updateVPA c observedVpa r =
     (let key = (Observed_Namespace observedVpa, Observed_Name observedVpa)
      in case map_of (Vpas (clusterState r)) key of
           None \<Rightarrow> r
         | Some vpa0 \<Rightarrow>
             (let resources = GetRecommendedPodResources c vpa0;
                  vpa1 = UpdateRecommendation c vpa0
                           (getCappedRecommendation ApplyVPAPolicy (ResourcesAsResourceList c)
                              (Vpa_ID c vpa0) resources (Observed_ResourcePolicy observedVpa));
                  hasMatchingPods = (Vpa_ID c vpa1 \<in> set (VpasWithMatchingPods (clusterState r)));
                  vpa2 = UpdateConditions c vpa1 hasMatchingPods;
                  cs1 = (clusterState r)\<lparr>Vpas := AList.update key vpa2 (Vpas (clusterState r))\<rparr>;
                  now = fst (time_Now r);
                  r1 = snd (time_Now r);
                  cs2 = fst (RecordRecommendation c cs1 vpa2 now)
              in emit (UpdateVpaStatusIfNeeded (Vpa_ID c vpa2) (AsStatus c vpa2) (Observed_Status observedVpa))
                      (r1\<lparr>clusterState := cs2\<rparr>)))"

definition UpdateVPAs :: "('vpa, 'rest) collaborators \<Rightarrow> ('vpa, 'rest) recommender \<Rightarrow> ('vpa, 'rest) recommender" where
  "UpdateVPAs c r = fold (updateVPA c) (ObservedVpas (clusterState r)) r"

definition MaintainCheckpoints ::
  "('vpa, 'rest) collaborators \<Rightarrow> Time \<Rightarrow> int \<Rightarrow> ('vpa, 'rest) recommender \<Rightarrow> ('vpa, 'rest) recommender" where
  "MaintainCheckpoints c ctxDeadline minCheckpoints r =
     (let now = fst (time_Now r);
          r1 = snd (time_Now r)
      in if useCheckpoints r1
         then (let cs1 = fst (StoreCheckpoints c (clusterState r1) ctxDeadline now minCheckpoints);
                   r2 = emit [Call_StoreCheckpoints ctxDeadline now minCheckpoints] (r1\<lparr>clusterState := cs1\<rparr>);
                   now2 = fst (time_Now r2);
                   r3 = snd (time_Now r2)
               in if Time_Sub now2 (lastCheckpointGC r3) > checkpointsGCInterval r3
                  then emit [Call_GarbageCollectCheckpoints]
                         (r3\<lparr>lastCheckpointGC := now,
                             clusterState := GarbageCollectCheckpoints c (clusterState r3)\<rparr>)
                  else r3)
         else r1)"

definition GarbageCollect :: "('vpa, 'rest) collaborators \<Rightarrow> ('vpa, 'rest) recommender \<Rightarrow> ('vpa, 'rest) recommender" where
  "GarbageCollect c r =
     (let gcTime = fst (time_Now r);
          r1 = snd (time_Now r)
      in if Time_Sub gcTime (lastAggregateContainerStateGC r1) > AggregateContainerStateGCInterval
         then emit [Call_GarbageCollectAggregateCollectionStates gcTime]
                (r1\<lparr>clusterState := GarbageCollectAggregateCollectionStates c (clusterState r1) gcTime,
                    lastAggregateContainerStateGC := gcTime\<rparr>)
         else r1)"

text \<open>The first three steps of \<open>RunOnce\<close>, up to the observation of the step LoadMetrics.\<close>

definition loadSteps :: "('vpa, 'rest) collaborators \<Rightarrow> ('vpa, 'rest) recommender \<Rightarrow> ('vpa, 'rest) recommender" where
  "loadSteps c r =
     (let r1 = emit [Call_LoadVPAs, ObserveStep ''LoadVPAs'']
                 (r\<lparr>clusterState := LoadVPAs c (clusterState r)\<rparr>);
          r2 = emit [Call_LoadPods, ObserveStep ''LoadPods'']
                 (r1\<lparr>clusterState := LoadPods c (clusterState r1)\<rparr>)
      in emit [Call_LoadRealTimeMetrics, ObserveStep ''LoadMetrics'']
           (r2\<lparr>clusterState := LoadRealTimeMetrics c (clusterState r2)\<rparr>))"

text \<open>
  \<open>RunOnce\<close>. The deadline of the context is the first reading of the clock plus the
  checkpoints timeout; the two deferred calls run last, in reverse order.
\<close>

definition RunOnce :: "('vpa, 'rest) collaborators \<Rightarrow> ('vpa, 'rest) recommender \<Rightarrow> ('vpa, 'rest) recommender" where
  "RunOnce c r =
     (let start = fst (time_Now r);
          r0 = snd (time_Now r);
          ctxDeadline = Time_Add start (checkpointsWriteTimeout c);
          r3 = loadSteps c r0;
          r4 = emit [ObserveStep ''UpdateVPAs''] (UpdateVPAs c r3);
          r5 = emit [ObserveStep ''MaintainCheckpoints'']
                 (MaintainCheckpoints c ctxDeadline (minCheckpointsPerRun c) r4);
          r6 = emit [ObserveStep ''GarbageCollect''] (GarbageCollect c r5)
      in emit [Call_cancelFunc, ObserveTotal] r6)"
subsection \<open>Reading one iteration: the status writes and the clock readings\<close>

text \<open>
  What \<open>UpdateVPAs\<close> is to do for one observed config whose key is found in the model:
  the config of the model takes the capped recommendation and its conditions
  (\<open>recommendedVpa\<close>), it is stored back and recorded at the time of a clock reading
  (\<open>recordedState\<close>), and its status is written iff it differs from the status of that
  observed config (\<open>statusWrite\<close>).
\<close>

definition configKey :: "ObservedVpa \<Rightarrow> VpaID" where
  "configKey observedVpa = (Observed_Namespace observedVpa, Observed_Name observedVpa)"

definition recommendedVpa ::
  "('vpa, 'rest) collaborators \<Rightarrow> ('vpa, 'rest) ClusterState \<Rightarrow> ObservedVpa \<Rightarrow> 'vpa \<Rightarrow> 'vpa" where
  "recommendedVpa c cs observedVpa vpa0 =
     UpdateConditions c
       (UpdateRecommendation c vpa0
          (getCappedRecommendation ApplyVPAPolicy (ResourcesAsResourceList c) (Vpa_ID c vpa0)
             (GetRecommendedPodResources c vpa0) (Observed_ResourcePolicy observedVpa)))
       (Vpa_ID c
          (UpdateRecommendation c vpa0
             (getCappedRecommendation ApplyVPAPolicy (ResourcesAsResourceList c) (Vpa_ID c vpa0)
                (GetRecommendedPodResources c vpa0) (Observed_ResourcePolicy observedVpa)))
        \<in> set (VpasWithMatchingPods cs))"

definition recordedState ::
  "('vpa, 'rest) collaborators \<Rightarrow> ('vpa, 'rest) ClusterState \<Rightarrow> ObservedVpa \<Rightarrow> 'vpa \<Rightarrow> Time \<Rightarrow>
   ('vpa, 'rest) ClusterState" where
  "recordedState c cs observedVpa vpa0 now =
     fst (RecordRecommendation c
            (cs\<lparr>Vpas := AList.update (configKey observedVpa) (recommendedVpa c cs observedVpa vpa0) (Vpas cs)\<rparr>)
            (recommendedVpa c cs observedVpa vpa0) now)"

definition statusWrite ::
  "('vpa, 'rest) collaborators \<Rightarrow> ('vpa, 'rest) ClusterState \<Rightarrow> ObservedVpa \<Rightarrow> 'vpa \<Rightarrow> event list" where
  "statusWrite c cs observedVpa vpa0 =
     (if AsStatus c (recommendedVpa c cs observedVpa vpa0) = Observed_Status observedVpa then []
      else [PatchVpaStatus (Vpa_ID c (recommendedVpa c cs observedVpa vpa0))
              (AsStatus c (recommendedVpa c cs observedVpa vpa0))])"

text \<open>
  The observed configs are taken in their order, from the cluster state \<open>cs\<close> and the
  \<open>n\<close>-th reading of the clock \<open>clk\<close>. A config whose key is not in the model is passed
  over; every other one reads the clock once. The result is the status writes in their
  order, the number of the next clock reading, and the cluster state at the end.
\<close>

fun updateOutcome ::
  "('vpa, 'rest) collaborators \<Rightarrow> (nat \<Rightarrow> Time) \<Rightarrow> ObservedVpa list \<Rightarrow> nat \<Rightarrow> ('vpa, 'rest) ClusterState \<Rightarrow>
   event list \<times> nat \<times> ('vpa, 'rest) ClusterState" where
  "updateOutcome c clk [] n cs = ([], n, cs)"
| "updateOutcome c clk (observedVpa # others) n cs =
     (case map_of (Vpas cs) (configKey observedVpa) of
        None \<Rightarrow> updateOutcome c clk others n cs
      | Some vpa0 \<Rightarrow>
          (statusWrite c cs observedVpa vpa0 @
             fst (updateOutcome c clk others (Suc n) (recordedState c cs observedVpa vpa0 (clk n))),
           snd (updateOutcome c clk others (Suc n) (recordedState c cs observedVpa vpa0 (clk n)))))"

text \<open>
  For one iteration from the recommender \<open>r\<close>: the cluster state after the three loads,
  the status writes of \<open>UpdateVPAs\<close> on it (the first clock reading of the iteration is the
  start of the deadline, the following ones are those of the configs), the number of the
  clock reading that follows them, which is the time given to \<open>StoreCheckpoints\<close>, and the
  time of the garbage collection: the reading after the one or, with checkpoints, the two
  readings of \<open>MaintainCheckpoints\<close>.
\<close>

definition loadedState :: "('vpa, 'rest) collaborators \<Rightarrow> ('vpa, 'rest) recommender \<Rightarrow> ('vpa, 'rest) ClusterState" where
  "loadedState c r = LoadRealTimeMetrics c (LoadPods c (LoadVPAs c (clusterState r)))"

definition statusWrites :: "('vpa, 'rest) collaborators \<Rightarrow> ('vpa, 'rest) recommender \<Rightarrow> event list" where
  "statusWrites c r =
     fst (updateOutcome c (clock r) (ObservedVpas (loadedState c r)) (Suc (reads r)) (loadedState c r))"

definition readsAfterUpdates :: "('vpa, 'rest) collaborators \<Rightarrow> ('vpa, 'rest) recommender \<Rightarrow> nat" where
  "readsAfterUpdates c r =
     fst (snd (updateOutcome c (clock r) (ObservedVpas (loadedState c r)) (Suc (reads r)) (loadedState c r)))"

definition gcTime :: "('vpa, 'rest) collaborators \<Rightarrow> ('vpa, 'rest) recommender \<Rightarrow> Time" where
  "gcTime c r = clock r (readsAfterUpdates c r + (if useCheckpoints r then 2 else 1))"


subsection \<open>An example recommender\<close>

text \<open>
  One container \<open>app\<close> with a raw cpu target of 50m between the bounds 25m and 200m, under
  a policy that allows 100m to 1 core. The example model keeps, for a config, its status
  and its raw estimate. The clock ticks once a minute from 0; the last collection of the
  aggregates was two hours before.
\<close>

definition example_asList :: "Resources \<Rightarrow> ResourceList" where
  "example_asList resources = Some (map (\<lambda>entry. (fst entry, of_int (sint (snd entry)) / 1000)) resources)"

definition example_raw :: RawPodResources where
  "example_raw =
     [(''app'', \<lparr>Raw_Target = [(''cpu'', 50)], Raw_LowerBound = [(''cpu'', 25)],
                Raw_UpperBound = [(''cpu'', 200)]\<rparr>)]"

definition example_policy :: PodResourcePolicy where
  "example_policy =
     [\<lparr>Policy_ContainerName = ''app'', Mode = Some ''Auto'',
       MinAllowed = Some [(''cpu'', 100 / 1000)], MaxAllowed = Some [(''cpu'', 1)]\<rparr>]"

definition example_capped :: RecommendedContainerResources where
  "example_capped =
     \<lparr>ContainerName = ''app'', Target = Some [(''cpu'', 100 / 1000)],
      LowerBound = Some [(''cpu'', 100 / 1000)], UpperBound = Some [(''cpu'', 200 / 1000)],
      UncappedTarget = Some [(''cpu'', 50 / 1000)]\<rparr>"

definition emptyStatus :: VerticalPodAutoscalerStatus where
  "emptyStatus = \<lparr>Status_Recommendation = None, Status_Conditions = []\<rparr>"

definition example_collaborators :: "(VerticalPodAutoscalerStatus \<times> RawPodResources, unit) collaborators" where
  "example_collaborators =
     \<lparr>LoadVPAs = (\<lambda>cs. cs),
      LoadPods = (\<lambda>cs. cs),
      LoadRealTimeMetrics = (\<lambda>cs. cs),
      GarbageCollectCheckpoints = (\<lambda>cs. cs),
      StoreCheckpoints = (\<lambda>cs deadline now m. (cs, None)),
      GarbageCollectAggregateCollectionStates = (\<lambda>cs now. cs),
      RecordRecommendation = (\<lambda>cs vpa now. (cs, None)),
      GetRecommendedPodResources = snd,
      Vpa_ID = (\<lambda>vpa. (''default'', ''my-vpa'')),
      UpdateRecommendation = (\<lambda>vpa rec. ((fst vpa)\<lparr>Status_Recommendation := rec\<rparr>, snd vpa)),
      UpdateConditions = (\<lambda>vpa hasMatchingPods. vpa),
      AsStatus = fst,
      ResourcesAsResourceList = example_asList,
      checkpointsWriteTimeout = Minute,
      minCheckpointsPerRun = 10\<rparr>"

definition example_observed :: ObservedVpa where
  "example_observed =
     \<lparr>Observed_Namespace = ''default'', Observed_Name = ''my-vpa'',
      Observed_ResourcePolicy = Some example_policy, Observed_Status = emptyStatus\<rparr>"

definition example_recommender :: "(VerticalPodAutoscalerStatus \<times> RawPodResources, unit) recommender" where
  "example_recommender =
     \<lparr>clusterState = \<lparr>ObservedVpas = [example_observed],
                      Vpas = [((''default'', ''my-vpa''), (emptyStatus, example_raw))],
                      VpasWithMatchingPods = [(''default'', ''my-vpa'')],
                      otherState = ()\<rparr>,
      checkpointsGCInterval = 10 * Minute,
      lastCheckpointGC = 0,
      useCheckpoints = True,
      lastAggregateContainerStateGC = - (2 * Hour),
      events = [],
      clock = (\<lambda>n. int n * Minute),
      reads = 0\<rparr>"

text \<open>The same recommender, whose last collection of checkpoints was an hour before.\<close>

definition example_recommender_gc :: "(VerticalPodAutoscalerStatus \<times> RawPodResources, unit) recommender" where
  "example_recommender_gc = example_recommender\<lparr>lastCheckpointGC := - Hour\<rparr>"


section \<open>Properties of the update priority calculator\<close>

subsection \<open>float64 rounding\<close>

text \<open>
  The rounding on known doubles: 0.1, 0.01 and 0.09 are not binary fractions and round to
  their nearest doubles; an integer below \<open>2^53\<close> is exact; \<open>2^53 + 1\<close> lies halfway
  between two doubles and goes to the even one, as does \<open>2^53 + 3\<close>.
\<close>

lemma float64_round_examples:
  "float64_round (1 / 10) = 3602879701896397 / 36028797018963968 \<and>
   float64_round (1 / 100) = 5764607523034235 / 576460752303423488 \<and>
   float64_round (9 / 100) = 3242591731706757 / 36028797018963968 \<and>
   float64_round 100000 = 100000 \<and>
   float64_round (- (1 / 10)) = - (3602879701896397 / 36028797018963968) \<and>
   float64_round (2 ^ 53 + 1) = 2 ^ 53 \<and>
   float64_round (2 ^ 53 + 3) = 2 ^ 53 + 4 \<and>
   float64_add (float64_round (1 / 100)) (float64_round (9 / 100)) = 7205759403792793 / 72057594037927936 \<and>
   float64_add (float64_round (1 / 100)) (float64_round (9 / 100)) < float64_round (1 / 10)"
  by code_simp

subsection \<open>The priority order\<close>


lemma not_Less_precedes: "(\<not> Less b a) = precedes a b"
  by (auto simp: Less_def precedes_def)

lemma precedes_trans: "precedes a b \<Longrightarrow> precedes b c \<Longrightarrow> precedes a c"
  by (auto simp: precedes_def)

lemma precedes_total: "\<not> precedes a b \<Longrightarrow> precedes b a"
  by (auto simp: precedes_def)

lemma set_sort_insert: "set (sort_insert x ys) = insert x (set ys)"
  by (induction ys) auto

lemma mset_sort_insert: "mset (sort_insert x ys) = add_mset x (mset ys)"
  by (induction ys) auto

lemma sorted_sort_insert:
  "sorted_wrt precedes ys \<Longrightarrow> sorted_wrt precedes (sort_insert x ys)"
proof (induction ys)
  case Nil
  then show ?case by simp
next
  case (Cons y ys)
  show ?case
  proof (cases "Less y x")
    case True
    then have "precedes y x"
      using not_Less_precedes precedes_total by blast
    with Cons True show ?thesis
      by (auto simp: set_sort_insert)
  next
    case False
    then have xy: "precedes x y" by (simp add: not_Less_precedes)
    have "\<forall>z\<in>set ys. precedes x z"
      using Cons.prems xy precedes_trans by auto
    with Cons.prems xy False show ?thesis by simp
  qed
qed

lemma sorted_sort_Sort: "sorted_wrt precedes (sort_Sort list)"
  unfolding sort_Sort_def by (induction list) (simp_all add: sorted_sort_insert)

lemma mset_sort_Sort: "mset (sort_Sort list) = mset list"
  unfolding sort_Sort_def by (induction list) (simp_all add: mset_sort_insert)


text \<open>
  Claim C1. The list that \<open>GetSortedPods\<close> returns is the list of the pods of the accepted
  priorities that the admission lets through, in the order of the sorted priorities: a
  pod with \<open>scaleUp = true\<close> is never behind one with \<open>scaleUp = false\<close>, and among pods
  that agree on \<open>scaleUp\<close> the \<open>resourceDiff\<close> does not increase along the list.
\<close>

theorem GetSortedPods_priority_order:
  "snd (GetSortedPods calc admission) = map pod (filter (admits admission) (sort_Sort (pods calc))) \<and>
   mset (filter (admits admission) (sort_Sort (pods calc))) = filter_mset (admits admission) (mset (pods calc)) \<and>
   (\<forall>i j. i < j \<and> j < length (filter (admits admission) (sort_Sort (pods calc))) \<longrightarrow>
      (scaleUp (filter (admits admission) (sort_Sort (pods calc)) ! j) \<longrightarrow>
       scaleUp (filter (admits admission) (sort_Sort (pods calc)) ! i)) \<and>
      (scaleUp (filter (admits admission) (sort_Sort (pods calc)) ! i) =
       scaleUp (filter (admits admission) (sort_Sort (pods calc)) ! j) \<longrightarrow>
       resourceDiff (filter (admits admission) (sort_Sort (pods calc)) ! j) \<le>
       resourceDiff (filter (admits admission) (sort_Sort (pods calc)) ! i)))"
proof -
  have "sorted_wrt precedes (filter (admits admission) (sort_Sort (pods calc)))"
    by (rule sorted_wrt_filter) (rule sorted_sort_Sort)
  then have "\<forall>i j. i < j \<and> j < length (filter (admits admission) (sort_Sort (pods calc))) \<longrightarrow>
      precedes (filter (admits admission) (sort_Sort (pods calc)) ! i)
               (filter (admits admission) (sort_Sort (pods calc)) ! j)"
    by (simp add: sorted_wrt_iff_nth_less)
  then have ordered: "\<forall>i j. i < j \<and> j < length (filter (admits admission) (sort_Sort (pods calc))) \<longrightarrow>
      (scaleUp (filter (admits admission) (sort_Sort (pods calc)) ! j) \<longrightarrow>
       scaleUp (filter (admits admission) (sort_Sort (pods calc)) ! i)) \<and>
      (scaleUp (filter (admits admission) (sort_Sort (pods calc)) ! i) =
       scaleUp (filter (admits admission) (sort_Sort (pods calc)) ! j) \<longrightarrow>
       resourceDiff (filter (admits admission) (sort_Sort (pods calc)) ! j) \<le>
       resourceDiff (filter (admits admission) (sort_Sort (pods calc)) ! i))"
    unfolding precedes_def .
  have perm: "mset (filter (admits admission) (sort_Sort (pods calc))) = filter_mset (admits admission) (mset (pods calc))"
    by (metis mset_filter mset_sort_Sort)
  have result: "snd (GetSortedPods calc admission) = map pod (filter (admits admission) (sort_Sort (pods calc)))"
    by (simp add: GetSortedPods_def Let_def)
  from result perm ordered show ?thesis by blast
qed

theorem GetSortedPods_priority_order_witness:
  "snd (GetSortedPods example_calc3 None) = [P1, P3, P2] \<and>
   length (filter (admits None) (sort_Sort (pods example_calc3))) = 3 \<and>
   scaleUp (filter (admits None) (sort_Sort (pods example_calc3)) ! 0) =
     scaleUp (filter (admits None) (sort_Sort (pods example_calc3)) ! 1) \<and>
   resourceDiff (filter (admits None) (sort_Sort (pods example_calc3)) ! 1) \<le>
     resourceDiff (filter (admits None) (sort_Sort (pods example_calc3)) ! 0)"
proof -
  have len: "length (filter (admits None) (sort_Sort (pods example_calc3))) = 3"
    by code_simp
  have same: "scaleUp (filter (admits None) (sort_Sort (pods example_calc3)) ! 0) =
     scaleUp (filter (admits None) (sort_Sort (pods example_calc3)) ! 1)"
    by code_simp
  have pods: "map pod (filter (admits None) (sort_Sort (pods example_calc3))) = [P1, P3, P2]"
    by code_simp
  have idx: "(0::nat) < 1 \<and> 1 < length (filter (admits None) (sort_Sort (pods example_calc3)))"
    by (simp add: len)
  from GetSortedPods_priority_order [of example_calc3 None] idx same pods len
  show ?thesis by metis
qed

subsection \<open>The totals and the resource difference\<close>
lemma map_get0_Nil: "map_get0 [] r = 0"
  by (simp add: map_get0_def)

lemma map_get0_total_add: "map_get0 (total_add m k v) r = (if r = k then map_get0 m k + v else map_get0 m r)"
  by (simp add: map_get0_def total_add_def update_conv')

lemma keys_total_add: "fst ` set (total_add m k v) = insert k (fst ` set m)"
  by (simp add: total_add_def dom_update)

lemma distinct_total_add: "distinct (map fst m) \<Longrightarrow> distinct (map fst (total_add m k v))"
  by (simp add: total_add_def distinct_update)

lemma targetStep_totalRecommended:
  "totalRecommendedPerResource (targetStep c rr e acc) =
     total_add (totalRecommendedPerResource acc) (fst e) (MilliValue (snd e))"
  by (simp add: targetStep_def Let_def split: option.splits)

lemma targetStep_totalRequest:
  "totalRequestPerResource (targetStep c rr e acc) =
     (case lookupRL (Requests c) (fst e) of
        None \<Rightarrow> totalRequestPerResource acc
      | Some request \<Rightarrow> total_add (totalRequestPerResource acc) (fst e) (MilliValue request))"
  by (simp add: targetStep_def Let_def split: option.splits)

lemma fold_targetStep_rec:
  "map_get0 (totalRecommendedPerResource (fold (targetStep c rr) es acc)) r =
     map_get0 (totalRecommendedPerResource acc) r +
     sum_list (map (\<lambda>e. MilliValue (snd e)) (filter (\<lambda>e. fst e = r) es))"
  by (induction es arbitrary: acc) (simp_all add: targetStep_totalRecommended map_get0_total_add)

lemma fold_targetStep_req:
  "map_get0 (totalRequestPerResource (fold (targetStep c rr) es acc)) r =
     map_get0 (totalRequestPerResource acc) r +
     sum_list (map (\<lambda>e. requestMilli c (fst e)) (filter (\<lambda>e. fst e = r) es))"
  by (induction es arbitrary: acc)
     (simp_all add: targetStep_totalRequest map_get0_total_add requestMilli_def split: option.splits)

lemma fold_targetStep_keys:
  "fst ` set (totalRecommendedPerResource (fold (targetStep c rr) es acc)) =
     fst ` set (totalRecommendedPerResource acc) \<union> fst ` set es"
  by (induction es arbitrary: acc) (simp_all add: targetStep_totalRecommended keys_total_add)

lemma fold_targetStep_distinct:
  "distinct (map fst (totalRecommendedPerResource acc)) \<Longrightarrow>
   distinct (map fst (totalRecommendedPerResource (fold (targetStep c rr) es acc)))"
  by (induction es arbitrary: acc) (simp_all add: targetStep_totalRecommended distinct_total_add)

lemma filter_Pair: "filter (\<lambda>e. fst (snd e) = r) (map (Pair c) es) = map (Pair c) (filter (\<lambda>e. fst e = r) es)"
  by (induction es) auto

lemma containerStep_rec:
  "map_get0 (totalRecommendedPerResource (containerStep rec c acc)) r =
     map_get0 (totalRecommendedPerResource acc) r +
     sum_list (map (\<lambda>e. MilliValue (snd (snd e))) (filter (\<lambda>e. fst (snd e) = r) (containerEntries rec c)))"
  by (simp add: containerStep_def containerEntries_def fold_targetStep_rec filter_Pair o_def split: option.splits)

lemma containerStep_req:
  "map_get0 (totalRequestPerResource (containerStep rec c acc)) r =
     map_get0 (totalRequestPerResource acc) r +
     sum_list (map (\<lambda>e. requestMilli (fst e) (fst (snd e))) (filter (\<lambda>e. fst (snd e) = r) (containerEntries rec c)))"
  by (simp add: containerStep_def containerEntries_def fold_targetStep_req filter_Pair o_def split: option.splits)

lemma containerStep_keys:
  "fst ` set (totalRecommendedPerResource (containerStep rec c acc)) =
     fst ` set (totalRecommendedPerResource acc) \<union> (\<lambda>e. fst (snd e)) ` set (containerEntries rec c)"
  by (simp add: containerStep_def containerEntries_def fold_targetStep_keys image_image split: option.splits)

lemma containerStep_distinct:
  "distinct (map fst (totalRecommendedPerResource acc)) \<Longrightarrow>
   distinct (map fst (totalRecommendedPerResource (containerStep rec c acc)))"
  by (simp add: containerStep_def fold_targetStep_distinct split: option.splits)

lemma fold_containerStep_rec:
  "map_get0 (totalRecommendedPerResource (fold (containerStep rec) cs acc)) r =
     map_get0 (totalRecommendedPerResource acc) r +
     sum_list (map (\<lambda>e. MilliValue (snd (snd e)))
       (filter (\<lambda>e. fst (snd e) = r) (concat (map (containerEntries rec) cs))))"
  by (induction cs arbitrary: acc) (simp_all add: containerStep_rec)

lemma fold_containerStep_req:
  "map_get0 (totalRequestPerResource (fold (containerStep rec) cs acc)) r =
     map_get0 (totalRequestPerResource acc) r +
     sum_list (map (\<lambda>e. requestMilli (fst e) (fst (snd e)))
       (filter (\<lambda>e. fst (snd e) = r) (concat (map (containerEntries rec) cs))))"
  by (induction cs arbitrary: acc) (simp_all add: containerStep_req)

lemma fold_containerStep_keys:
  "fst ` set (totalRecommendedPerResource (fold (containerStep rec) cs acc)) =
     fst ` set (totalRecommendedPerResource acc) \<union>
     (\<lambda>e. fst (snd e)) ` set (concat (map (containerEntries rec) cs))"
  by (induction cs arbitrary: acc) (simp_all add: containerStep_keys image_Un Un_assoc)

lemma fold_containerStep_distinct:
  "distinct (map fst (totalRecommendedPerResource acc)) \<Longrightarrow>
   distinct (map fst (totalRecommendedPerResource (fold (containerStep rec) cs acc)))"
  by (induction cs arbitrary: acc) (simp_all add: containerStep_distinct)

lemma fold_diffStep:
  "fold (diffStep tr) al d =
     fold (\<lambda>t d. float64_add d t)
       (map (\<lambda>e. float64_div \<bar>float64_sub (max (float64_of (map_get0 tr (fst e))) 1) (float64_of (snd e))\<bar>
                              (max (float64_of (map_get0 tr (fst e))) 1)) al) d"
  by (induction al arbitrary: d) (simp_all add: diffStep_def Let_def)

lemma distinct_alist_values:
  "distinct (map fst al) \<Longrightarrow> e \<in> set al \<Longrightarrow> snd e = map_get0 al (fst e)"
  by (cases e) (simp add: map_get0_def)

lemma sum_list_alist:
  assumes "distinct (map fst al)"
  shows "sum_list (map (\<lambda>e. g (fst e) (snd e)) al) = sum_list (map (\<lambda>k. g k (map_get0 al k)) (map fst al))"
proof -
  have "map (\<lambda>e. g (fst e) (snd e)) al = map (\<lambda>e. g (fst e) (map_get0 al (fst e))) al"
    using distinct_alist_values [OF assms] by (intro map_cong) simp_all
  then have "sum_list (map (\<lambda>e. g (fst e) (snd e)) al) = sum_list (map (\<lambda>e. g (fst e) (map_get0 al (fst e))) al)"
    by (rule arg_cong)
  then show ?thesis by (simp add: o_def)
qed


text \<open>
  Claim C3, as stated, at pod P0 (one container, no request, a recommended cpu target of
  5m): the formula of the claim gives 5 in both of its readings, the code computes 4,
  because the request that it subtracts from is the clamped one. All the numbers of this
  example are small integers, which float64 holds exactly.
\<close>

theorem resourceDiff_formula_counterexample:
  "resourceDiff (getUpdatePriority insertionOrder P0 rec5m) = 4 \<and>
   spec_resourceDiff P0 rec5m = 5 \<and>
   spec_resourceDiff_per_container P0 rec5m = 5"
  by code_simp

text \<open>
  Claim C3, amended. Whenever the last loop visits the entries of the map of totals in
  some order (each entry once), the \<open>resourceDiff\<close> of \<open>getUpdatePriority\<close> is the float64
  sum, added from the left to 0 along an enumeration \<open>ks\<close> of the resources that have a
  recommended target in some container of the pod (each resource once), of the terms
  \<open>|R - recommended| / R\<close> computed in float64, with \<open>R = max(request, 1)\<close>, where
  \<open>recommended\<close> is the int64 total of the milli-values of the targets of the resource and
  \<open>request\<close> the int64 total of the milli-values of its requests in the containers that
  have such a target, a missing request counting as 0. Every resource name is treated
  alike.
\<close>

theorem getUpdatePriority_resourceDiff:
  assumes "\<forall>m. mset (rangeOrder m) = mset m"
  shows "\<exists>ks. mset ks = mset (recommendedResources p rec) \<and>
           resourceDiff (getUpdatePriority rangeOrder p rec) =
             float64_sum (map (resourceTerm p rec) ks)"
proof -
  define acc0 where "acc0 = \<lparr>acc_outside = False, acc_scaleUp = False,
                   totalRequestPerResource = [], totalRecommendedPerResource = []\<rparr>"
  define acc where "acc = fold (containerStep rec) (Containers p) acc0"
  define al where "al = totalRecommendedPerResource acc"
  define ol where "ol = rangeOrder al"
  define ks where "ks = map fst ol"
  have ent: "concat (map (containerEntries rec) (Containers p)) = recommendedEntries p rec"
    by (simp add: recommendedEntries_def)
  have dist: "distinct (map fst al)"
    unfolding al_def acc_def by (rule fold_containerStep_distinct) (simp add: acc0_def)
  have keys: "set (map fst al) = set (recommendedResources p rec)"
    unfolding al_def acc_def by (simp add: fold_containerStep_keys acc0_def ent recommendedResources_def)
  have rec: "map_get0 al r = totalRecommended p rec r" for r
    unfolding al_def acc_def by (simp add: fold_containerStep_rec acc0_def ent totalRecommended_def map_get0_Nil)
  have req: "map_get0 (totalRequestPerResource acc) r = totalRequest p rec r" for r
    unfolding acc_def by (simp add: fold_containerStep_req acc0_def ent totalRequest_def map_get0_Nil)
  have perm: "mset ol = mset al"
    using assms by (simp add: ol_def)
  then have same: "set ol = set al"
    by (rule mset_eq_setD)
  have val: "snd e = totalRecommended p rec (fst e)" if "e \<in> set ol" for e
    using distinct_alist_values [OF dist, of e] that by (simp add: same rec)
  have terms: "map (\<lambda>e. float64_div \<bar>float64_sub (max (float64_of (map_get0 (totalRequestPerResource acc) (fst e))) 1)
                                                 (float64_of (snd e))\<bar>
                              (max (float64_of (map_get0 (totalRequestPerResource acc) (fst e))) 1)) ol =
               map (resourceTerm p rec) ks"
    unfolding ks_def map_map
    by (rule map_cong) (simp_all add: resourceTerm_def clampedRequest_def req val)
  have "resourceDiff (getUpdatePriority rangeOrder p rec) =
          fold (diffStep (totalRequestPerResource acc)) ol 0"
    by (simp add: getUpdatePriority_def acc_def acc0_def al_def ol_def Let_def)
  also have "\<dots> = float64_sum (map (resourceTerm p rec) ks)"
    by (simp only: fold_diffStep terms float64_sum_def)
  finally have sum: "resourceDiff (getUpdatePriority rangeOrder p rec) =
             float64_sum (map (resourceTerm p rec) ks)" .
  have "image_mset fst (mset ol) = image_mset fst (mset al)"
    using perm by (rule arg_cong)
  then have "mset ks = mset (map fst al)"
    by (simp add: ks_def)
  also have "\<dots> = mset (recommendedResources p rec)"
  proof -
    have d2: "distinct (recommendedResources p rec)"
      by (simp add: recommendedResources_def)
    from set_eq_iff_mset_eq_distinct [OF dist d2] keys show ?thesis by blast
  qed
  finally have "mset ks = mset (recommendedResources p rec)" .
  with sum show ?thesis by blast
qed

theorem getUpdatePriority_resourceDiff_witness:
  "(\<forall>m. mset (insertionOrder m) = mset m) \<and>
   (\<exists>ks. mset ks = mset (recommendedResources FL recFL) \<and>
      resourceDiff (getUpdatePriority insertionOrder FL recFL) =
        float64_sum (map (resourceTerm FL recFL) ks)) \<and>
   resourceDiff (getUpdatePriority insertionOrder FL recFL) = 7205759403792793 / 72057594037927936 \<and>
   float64_sum (map (resourceTerm FL recFL) [''cpu'', ''memory'']) = 7205759403792793 / 72057594037927936 \<and>
   spec_resourceDiff FL recFL = 1 / 10"
proof -
  have h: "\<forall>m. mset (insertionOrder m) = mset m"
    by (simp add: insertionOrder_def)
  have v: "resourceDiff (getUpdatePriority insertionOrder FL recFL) = 7205759403792793 / 72057594037927936"
    by code_simp
  have t: "float64_sum (map (resourceTerm FL recFL) [''cpu'', ''memory'']) = 7205759403792793 / 72057594037927936"
    by code_simp
  have e: "spec_resourceDiff FL recFL = 1 / 10"
    by code_simp
  from getUpdatePriority_resourceDiff [OF h, of FL recFL] h v t e
  show ?thesis by (intro conjI)
qed

text \<open>
  With three resources the float64 sum depends on the order of the visit: at pod ORD the
  terms 0.1, 0.2 and 0.3 add up to 0.6000000000000001 in the order of insertion and to 0.6
  in the reverse order.
\<close>

lemma resourceDiff_depends_on_order:
  "resourceDiff (getUpdatePriority insertionOrder ORD recORD) = 1351079888211149 / 2251799813685248 \<and>
   resourceDiff (getUpdatePriority reverseOrder ORD recORD) = 5404319552844595 / 9007199254740992"
  by code_simp

subsection \<open>Eligibility for eviction\<close>


lemma targetStep_flags_mono:
  "(acc_scaleUp acc \<longrightarrow> acc_scaleUp (targetStep c rr e acc)) \<and>
   (acc_outside acc \<longrightarrow> acc_outside (targetStep c rr e acc))"
  by (simp add: targetStep_def Let_def split: option.splits)

lemma fold_targetStep_flags_mono:
  "acc_scaleUp acc \<and> acc_outside acc \<Longrightarrow>
   acc_scaleUp (fold (targetStep c rr) es acc) \<and> acc_outside (fold (targetStep c rr) es acc)"
  by (induction es arbitrary: acc) (simp_all add: targetStep_flags_mono)

lemma targetStep_no_request:
  "lookupRL (Requests c) (fst e) = None \<Longrightarrow>
   acc_scaleUp (targetStep c rr e acc) \<and> acc_outside (targetStep c rr e acc)"
  by (simp add: targetStep_def Let_def)

lemma fold_targetStep_no_request:
  "e \<in> set es \<Longrightarrow> lookupRL (Requests c) (fst e) = None \<Longrightarrow>
   acc_scaleUp (fold (targetStep c rr) es acc) \<and> acc_outside (fold (targetStep c rr) es acc)"
proof (induction es arbitrary: acc)
  case Nil
  then show ?case by simp
next
  case (Cons a es)
  show ?case
  proof (cases "e = a")
    case True
    with Cons.prems show ?thesis
      by (simp add: fold_targetStep_flags_mono targetStep_no_request)
  next
    case False
    with Cons show ?thesis by simp
  qed
qed

lemma containerStep_flags_mono:
  "acc_scaleUp acc \<and> acc_outside acc \<Longrightarrow>
   acc_scaleUp (containerStep rec c acc) \<and> acc_outside (containerStep rec c acc)"
  by (simp add: containerStep_def fold_targetStep_flags_mono split: option.splits)

lemma fold_containerStep_flags_mono:
  "acc_scaleUp acc \<and> acc_outside acc \<Longrightarrow>
   acc_scaleUp (fold (containerStep rec) cs acc) \<and> acc_outside (fold (containerStep rec) cs acc)"
  by (induction cs arbitrary: acc) (simp_all add: containerStep_flags_mono)

lemma fold_containerStep_no_request:
  assumes "c \<in> set cs"
    and "GetRecommendationForContainer (Container_Name c) rec = Some rr"
    and "e \<in> set (rangeRL (Target rr))"
    and "lookupRL (Requests c) (fst e) = None"
  shows "acc_scaleUp (fold (containerStep rec) cs acc) \<and> acc_outside (fold (containerStep rec) cs acc)"
  using assms(1)
proof (induction cs arbitrary: acc)
  case Nil
  then show ?case by simp
next
  case (Cons a cs)
  show ?case
  proof (cases "c = a")
    case True
    have "acc_scaleUp (containerStep rec a acc) \<and> acc_outside (containerStep rec a acc)"
      using assms(2-4) True by (simp add: containerStep_def fold_targetStep_no_request)
    then show ?thesis by (simp add: fold_containerStep_flags_mono)
  next
    case False
    with Cons show ?thesis by simp
  qed
qed


text \<open>
  Claim C2. When the processor applies the recommendation without error, \<open>AddPod\<close>
  appends the pod's priority to the candidate list iff the pod is outside the recommended
  range, or had a quick OOM (exactly one container status, last terminated for the reason
  OOMKilled after a lifetime below the evict-after-oom threshold, 10 minutes by default),
  or has a start time at least 12 hours before now and a resource difference, as
  \<open>getUpdatePriority\<close> computes it in float64, of at least MinChangePriority (by default
  the float64 constant 0.10); otherwise the calculator is unchanged.
\<close>

theorem AddPod_eligibility:
  assumes "recommendationProcessor_Apply calc recommendation0 (resourcesPolicy calc) (conditions calc) p
             = Inr processed"
  shows "AddPod rangeOrder calc p recommendation0 now =
           (if outsideRecommendedRange (getUpdatePriority rangeOrder p processed) \<or>
               quickOOM (evictAfterOOMThreshold calc) p \<or>
               (\<exists>startTime. StartTime p = Some startTime \<and>
                  startTime + 12 * 3600 * 1000000000 \<le> now \<and>
                  MinChangePriority (config calc) \<le> resourceDiff (getUpdatePriority rangeOrder p processed))
            then calc\<lparr>pods := pods calc @ [getUpdatePriority rangeOrder p processed]\<rparr>
            else calc) \<and>
         quickOOM (evictAfterOOMThreshold calc) p =
           (\<exists>status terminated. ContainerStatuses p = [status] \<and>
              LastTerminated status = Some terminated \<and>
              Reason terminated = ''OOMKilled'' \<and>
              Time_Sub (FinishedAt terminated) (StartedAt terminated) < evictAfterOOMThreshold calc) \<and>
         default_evictAfterOOMThreshold = 10 * 60 * 1000000000 \<and>
         MinChangePriority (config (NewUpdatePriorityCalculator policy conds None processor threshold))
           = float64_round (1 / 10)"
proof -
  have a: "AddPod rangeOrder calc p recommendation0 now =
           (if outsideRecommendedRange (getUpdatePriority rangeOrder p processed) \<or>
               quickOOM (evictAfterOOMThreshold calc) p \<or>
               (\<exists>startTime. StartTime p = Some startTime \<and>
                  startTime + 12 * 3600 * 1000000000 \<le> now \<and>
                  MinChangePriority (config calc) \<le> resourceDiff (getUpdatePriority rangeOrder p processed))
            then calc\<lparr>pods := pods calc @ [getUpdatePriority rangeOrder p processed]\<rparr>
            else calc)"
    using assms
    by (auto simp: AddPod_def Let_def Time_Before_def Time_Add_def podLifetimeUpdateThreshold_def
        Hour_def Minute_def split: option.splits)
  have b: "quickOOM (evictAfterOOMThreshold calc) p =
           (\<exists>status terminated. ContainerStatuses p = [status] \<and>
              LastTerminated status = Some terminated \<and>
              Reason terminated = ''OOMKilled'' \<and>
              Time_Sub (FinishedAt terminated) (StartedAt terminated) < evictAfterOOMThreshold calc)"
    by (auto simp: quickOOM_def split: list.splits option.splits)
  have c: "default_evictAfterOOMThreshold = 10 * 60 * 1000000000"
    by (simp add: default_evictAfterOOMThreshold_def Minute_def)
  have d: "MinChangePriority (config (NewUpdatePriorityCalculator policy conds None processor threshold))
             = float64_round (1 / 10)"
    by (simp add: NewUpdatePriorityCalculator_def defaultUpdateThreshold_def)
  from a b c d show ?thesis by blast
qed

text \<open>
  Pod P2 (the term 50/500, the double 0.1) is appended from 12 hours on and not before.
  Pod FL is not appended at 13 hours: its float64 sum 0.01 + 0.09 is 0.09999999999999999,
  below the double 0.1 of the default MinChangePriority, although the exact sum is 1/10.
\<close>

theorem AddPod_eligibility_witness:
  "recommendationProcessor_Apply example_calc rec450m
     (resourcesPolicy example_calc) (conditions example_calc) P2
     = Inr rec450m \<and>
   pods (AddPod insertionOrder example_calc P2 rec450m (12 * Hour)) =
     [getUpdatePriority insertionOrder P2 rec450m] \<and>
   pods (AddPod insertionOrder example_calc P2 rec450m (12 * Hour - 1)) = [] \<and>
   recommendationProcessor_Apply example_calc recFL
     (resourcesPolicy example_calc) (conditions example_calc) FL
     = Inr recFL \<and>
   pods (AddPod insertionOrder example_calc FL recFL (13 * Hour)) = [] \<and>
   resourceDiff (getUpdatePriority insertionOrder FL recFL) = 7205759403792793 / 72057594037927936 \<and>
   MinChangePriority (config example_calc) = 3602879701896397 / 36028797018963968"
proof -
  have ap: "recommendationProcessor_Apply example_calc rec450m
     (resourcesPolicy example_calc) (conditions example_calc) P2
     = Inr rec450m"
    by (simp add: example_calc_def NewUpdatePriorityCalculator_def identityProcessor_def)
  have apFL: "recommendationProcessor_Apply example_calc recFL
     (resourcesPolicy example_calc) (conditions example_calc) FL
     = Inr recFL"
    by (simp add: example_calc_def NewUpdatePriorityCalculator_def identityProcessor_def)
  have inside: "\<not> outsideRecommendedRange (getUpdatePriority insertionOrder P2 rec450m)"
    "\<not> outsideRecommendedRange (getUpdatePriority insertionOrder FL recFL)"
    by code_simp+
  have diff: "resourceDiff (getUpdatePriority insertionOrder P2 rec450m) = 3602879701896397 / 36028797018963968"
    by code_simp
  have diffFL: "resourceDiff (getUpdatePriority insertionOrder FL recFL) = 7205759403792793 / 72057594037927936"
    by code_simp
  have noOOM: "\<not> quickOOM (evictAfterOOMThreshold example_calc) P2"
    "\<not> quickOOM (evictAfterOOMThreshold example_calc) FL"
    by (simp_all add: quickOOM_def P2_def FL_def example_pod_def)
  have thr: "MinChangePriority (config example_calc) = 3602879701896397 / 36028797018963968"
    by code_simp
  have cfg: "pods example_calc = []"
    by (simp add: example_calc_def NewUpdatePriorityCalculator_def)
  have start: "StartTime P2 = Some 0" "StartTime FL = Some 0"
    by (simp_all add: P2_def FL_def example_pod_def)
  have p2a: "pods (AddPod insertionOrder example_calc P2 rec450m (12 * Hour)) =
     [getUpdatePriority insertionOrder P2 rec450m]"
    using AddPod_eligibility [OF ap, of insertionOrder "12 * Hour"]
    by (simp add: inside diff noOOM thr cfg start Hour_def Minute_def)
  have p2b: "pods (AddPod insertionOrder example_calc P2 rec450m (12 * Hour - 1)) = []"
    using AddPod_eligibility [OF ap, of insertionOrder "12 * Hour - 1"]
    by (simp add: inside diff noOOM thr cfg start Hour_def Minute_def)
  have fl: "pods (AddPod insertionOrder example_calc FL recFL (13 * Hour)) = []"
    using AddPod_eligibility [OF apFL, of insertionOrder "13 * Hour"]
    by (simp add: inside diffFL noOOM thr cfg start Hour_def Minute_def)
  from ap p2a p2b apFL fl diffFL thr show ?thesis by (intro conjI)
qed

text \<open>
  Claim C9. If a container of the pod has a recommended target for a resource for which
  it declares no request, \<open>getUpdatePriority\<close> sets \<open>scaleUp\<close> and
  \<open>outsideRecommendedRange\<close>, and \<open>AddPod\<close> appends the pod whatever its start time, the
  time now and MinChangePriority are.
\<close>

theorem missing_request_forces_update:
  assumes "c \<in> set (Containers p)"
    and "GetRecommendationForContainer (Container_Name c) processed = Some rr"
    and "(resourceName, recommended) \<in> set (rangeRL (Target rr))"
    and "lookupRL (Requests c) resourceName = None"
  shows "scaleUp (getUpdatePriority rangeOrder p processed) \<and>
         outsideRecommendedRange (getUpdatePriority rangeOrder p processed) \<and>
         (\<forall>calc recommendation0 now.
            recommendationProcessor_Apply calc recommendation0 (resourcesPolicy calc) (conditions calc) p
              = Inr processed \<longrightarrow>
            AddPod rangeOrder calc p recommendation0 now =
              calc\<lparr>pods := pods calc @ [getUpdatePriority rangeOrder p processed]\<rparr>)"
proof -
  have flags: "scaleUp (getUpdatePriority rangeOrder p processed) \<and>
               outsideRecommendedRange (getUpdatePriority rangeOrder p processed)"
    using fold_containerStep_no_request [OF assms(1) assms(2) assms(3)] assms(4)
    by (simp add: getUpdatePriority_def Let_def)
  then show ?thesis
    by (simp add: AddPod_def Let_def)
qed

theorem missing_request_forces_update_witness:
  "scaleUp (getUpdatePriority insertionOrder P0 rec5m) \<and>
   outsideRecommendedRange (getUpdatePriority insertionOrder P0 rec5m) \<and>
   AddPod insertionOrder example_calc P0 rec5m 1 =
     example_calc\<lparr>pods := pods example_calc @ [getUpdatePriority insertionOrder P0 rec5m]\<rparr>"
proof -
  let ?c = "cpu_container ''app'' None"
  let ?rr = "\<lparr>ContainerName = ''app'', Target = Some [(''cpu'', 5 / 1000)],
            LowerBound = Some [(''cpu'', 5 / 1000 / 2)], UpperBound = Some [(''cpu'', 5 / 1000 * 2)],
            UncappedTarget = Some [(''cpu'', 5 / 1000)]\<rparr>"
  have h1: "?c \<in> set (Containers P0)"
    by (simp add: P0_def example_pod_def)
  have h2: "GetRecommendationForContainer (Container_Name ?c) rec5m = Some ?rr"
    by (simp add: GetRecommendationForContainer_def rec5m_def cpu_recommendation_def cpu_container_def)
  have h3: "(''cpu'', 5 / 1000) \<in> set (rangeRL (Target ?rr))"
    by (simp add: rangeRL_def)
  have h4: "lookupRL (Requests ?c) ''cpu'' = None"
    by (simp add: lookupRL_def cpu_container_def)
  have ap: "recommendationProcessor_Apply example_calc rec5m
     (resourcesPolicy example_calc) (conditions example_calc) P0
     = Inr rec5m"
    by (simp add: example_calc_def NewUpdatePriorityCalculator_def identityProcessor_def)
  from missing_request_forces_update [OF h1 h2 h3 h4, of insertionOrder] ap
  show ?thesis by blast
qed

section \<open>Properties of the admission webhook\<close>

subsection \<open>Validation of a config\<close>


lemma validateMinMax_iff:
  "(validateMinMax es maxAllowed \<noteq> None) =
     (\<exists>entry\<in>set es. \<exists>max0. lookupRL maxAllowed (fst entry) = Some max0 \<and> max0 < snd entry)"
  by (induction es) (auto simp: Cmp_def split: option.splits)

lemma validateContainerPolicy_iff:
  "(validateContainerPolicy policy \<noteq> None) =
     (Policy_ContainerName policy = '''' \<or>
      (\<exists>mode. Mode policy = Some mode \<and> mode \<notin> set possibleScalingModes) \<or>
      (\<exists>entry\<in>set (rangeRL (MinAllowed policy)).
         \<exists>max0. lookupRL (MaxAllowed policy) (fst entry) = Some max0 \<and> max0 < snd entry))"
proof (cases "Policy_ContainerName policy = ''''")
  case True
  then show ?thesis by (simp add: validateContainerPolicy_def)
next
  case False
  show ?thesis
  proof (cases "Mode policy")
    case None
    with False show ?thesis
      using validateMinMax_iff [of "rangeRL (MinAllowed policy)" "MaxAllowed policy"]
      by (simp add: validateContainerPolicy_def)
  next
    case (Some mode)
    with False show ?thesis
      using validateMinMax_iff [of "rangeRL (MinAllowed policy)" "MaxAllowed policy"]
      by (simp add: validateContainerPolicy_def)
  qed
qed

lemma validateContainerPolicies_iff:
  "(validateContainerPolicies policies \<noteq> None) =
     (\<exists>policy\<in>set policies. validateContainerPolicy policy \<noteq> None)"
  by (induction policies) (auto split: option.splits)

lemma validateUpdatePolicy_iff:
  "(validateUpdatePolicy vpa \<noteq> None) =
     (\<exists>updatePolicy. UpdatePolicy vpa = Some updatePolicy \<and>
          (UpdateMode updatePolicy = None \<or>
           (\<exists>mode. UpdateMode updatePolicy = Some mode \<and> mode \<notin> set possibleUpdateModes)))"
  by (auto simp: validateUpdatePolicy_def split: option.splits)

lemma validateVPA_iff: "(validateVPA vpa isCreate \<noteq> None) = validation_fails vpa isCreate"
proof -
  have rp: "((case ResourcePolicy vpa of None \<Rightarrow> None
             | Some resourcePolicy \<Rightarrow> validateContainerPolicies resourcePolicy) \<noteq> None) =
        (\<exists>resourcePolicy. ResourcePolicy vpa = Some resourcePolicy \<and>
          (\<exists>policy\<in>set resourcePolicy.
              Policy_ContainerName policy = '''' \<or>
              (\<exists>mode. Mode policy = Some mode \<and> mode \<notin> set possibleScalingModes) \<or>
              (\<exists>entry\<in>set (rangeRL (MinAllowed policy)).
                 \<exists>max0. lookupRL (MaxAllowed policy) (fst entry) = Some max0 \<and> max0 < snd entry)))"
  proof (cases "ResourcePolicy vpa")
    case None
    then show ?thesis by simp
  next
    case (Some resourcePolicy)
    have "(validateContainerPolicies resourcePolicy \<noteq> None) =
          (\<exists>policy\<in>set resourcePolicy.
              Policy_ContainerName policy = '''' \<or>
              (\<exists>mode. Mode policy = Some mode \<and> mode \<notin> set possibleScalingModes) \<or>
              (\<exists>entry\<in>set (rangeRL (MinAllowed policy)).
                 \<exists>max0. lookupRL (MaxAllowed policy) (fst entry) = Some max0 \<and> max0 < snd entry))"
      unfolding validateContainerPolicies_iff validateContainerPolicy_iff ..
    with Some show ?thesis by simp
  qed
  have "(validateVPA vpa isCreate \<noteq> None) =
        (validateUpdatePolicy vpa \<noteq> None \<or>
         (case ResourcePolicy vpa of None \<Rightarrow> None
             | Some resourcePolicy \<Rightarrow> validateContainerPolicies resourcePolicy) \<noteq> None \<or>
         (isCreate \<and> TargetRef vpa = None))"
    by (simp add: validateVPA_def split: option.splits)
  then show ?thesis
    unfolding validation_fails_def validateUpdatePolicy_iff rp .
qed

lemma getPatchesForVPADefaults_fails_iff:
  "(\<exists>err. getPatchesForVPADefaults s raw isCreate = Inl err) = config_rejected s raw isCreate"
proof -
  have v: "\<And>vpa. (\<exists>err. validateVPA vpa isCreate = Some err) = validation_fails vpa isCreate"
    using validateVPA_iff by auto
  show ?thesis
    by (auto simp: getPatchesForVPADefaults_def config_rejected_def v [symmetric] split: sum.splits option.splits)
qed

lemma admit_finish_response:
  "Allowed (response (admit_finish s response0 resource0 outcome)) = Allowed response0 \<and>
   Result (response (admit_finish s response0 resource0 outcome)) = Result response0 \<and>
   resource (admit_finish s response0 resource0 outcome) = resource0"
  by (simp add: admit_finish_def split: sum.splits)

lemma admit_finish_error:
  "admit_finish s response0 resource0 (Inl err) =
     \<lparr>response = response0, status = Status_Error, resource = resource0, OnAdmittedPod = None\<rparr>"
  by (simp add: admit_finish_def)


text \<open>
  Claim C4, as stated, at a config request whose body does not parse: the response has
  \<open>Allowed = false\<close> and carries the parse error as its message, although no config was
  submitted that fails validation.
\<close>

theorem admit_denies_unparsable_config:
  "admit example_server ''review: vpa {'' =
     Some \<lparr>response = \<lparr>Allowed = False,
                        Result = Some \<lparr>Status_Status = ''Failure'',
                                       Message = ''unexpected end of JSON input''\<rparr>,
                        PatchType = None, Patch = None\<rparr>,
           status = Status_Error, resource = Resource_Vpa, OnAdmittedPod = None\<rparr> \<and>
   Unmarshal_AdmissionReview example_server ''review: vpa {'' = Inr (review_of vpaResource ''{'') \<and>
   \<not> spec_config_denied example_server ''{'' True"
  by (simp add: admit_def example_server_def review_of_def vpaResource_def podResource_def
      isVpaGroupResource_def getPatchesForVPADefaults_def parseVPA_def admit_finish_def
      allowedResponse_def error_message_def spec_config_denied_def)

text \<open>
  Claim C4, amended. For every admission request for an autoscaler config, \<open>admit\<close>
  returns a response with \<open>Allowed = false\<close>, carrying the status \<open>Failure\<close> and the
  error's message, iff the body of the config does not parse, or the config pre-processor
  fails, or validation of the pre-processed config fails; validation fails exactly in the
  four cases of \<open>validation_fails\<close>. Otherwise the config is allowed, with no status.
\<close>

theorem admit_denies_config_iff:
  assumes "Unmarshal_AdmissionReview s data = Inr ar"
    and "Request ar = Some req"
    and "isVpaGroupResource (Request_Resource req)"
  shows "\<exists>r. admit s data = Some r \<and> resource r = Resource_Vpa \<and>
           (Allowed (response r) = False) =
              config_rejected s (Object_Raw req) (Operation req = ''CREATE'') \<and>
           (Allowed (response r) = False \<longrightarrow>
              status r = Status_Error \<and> Patch (response r) = None \<and>
              (\<exists>err. getPatchesForVPADefaults s (Object_Raw req) (Operation req = ''CREATE'') = Inl err \<and>
                 Result (response r) = Some \<lparr>Status_Status = ''Failure'', Message = error_message err\<rparr>)) \<and>
           (Allowed (response r) \<longrightarrow> Result (response r) = None)"
proof -
  have notpod: "Request_Resource req \<noteq> podResource"
    using assms(3) by (auto simp: isVpaGroupResource_def podResource_def)
  show ?thesis
  proof (cases "getPatchesForVPADefaults s (Object_Raw req) (Operation req = ''CREATE'')")
    case (Inl err)
    then have rej: "config_rejected s (Object_Raw req) (Operation req = ''CREATE'')"
      using getPatchesForVPADefaults_fails_iff by blast
    show ?thesis
      using assms notpod Inl rej
      by (simp add: admit_def admit_finish_error allowedResponse_def)
  next
    case (Inr patches)
    then have rej: "\<not> config_rejected s (Object_Raw req) (Operation req = ''CREATE'')"
      using getPatchesForVPADefaults_fails_iff [of s "Object_Raw req" "Operation req = ''CREATE''"] by simp
    show ?thesis
      using assms notpod Inr rej
      by (simp add: admit_def admit_finish_response allowedResponse_def)
  qed
qed

theorem admit_denies_config_iff_witness:
  "Unmarshal_AdmissionReview example_server ''review: inverted vpa''
     = Inr (review_of vpaResource ''inverted vpa'') \<and>
   isVpaGroupResource vpaResource \<and>
   config_rejected example_server ''inverted vpa'' True \<and>
   validation_fails inverted_vpa True \<and>
   (\<exists>r. admit example_server ''review: inverted vpa'' = Some r \<and> Allowed (response r) = False \<and>
        status r = Status_Error)"
proof -
  let ?req = "\<lparr>Request_Resource = vpaResource, Request_Namespace = ''default'',
               Operation = ''CREATE'', Object_Raw = ''inverted vpa''\<rparr>"
  have h1: "Unmarshal_AdmissionReview example_server ''review: inverted vpa''
     = Inr (review_of vpaResource ''inverted vpa'')"
    by (simp add: example_server_def)
  have h2: "Request (review_of vpaResource ''inverted vpa'') = Some ?req"
    by (simp add: review_of_def)
  have h3: "isVpaGroupResource (Request_Resource ?req)"
    by (simp add: isVpaGroupResource_def vpaResource_def)
  have fails: "validation_fails inverted_vpa True"
    by (simp add: validation_fails_def inverted_vpa_def example_vpa_def rangeRL_def lookupRL_def)
  have rej: "config_rejected example_server (Object_Raw ?req) (Operation ?req = ''CREATE'')"
    using fails by (simp add: config_rejected_def parseVPA_def example_server_def)
  from admit_denies_config_iff [OF h1 h2 h3] rej
  have "\<exists>r. admit example_server ''review: inverted vpa'' = Some r \<and> Allowed (response r) = False \<and>
        status r = Status_Error"
    by blast
  with h1 h3 rej fails show ?thesis by simp
qed

subsection \<open>Pod requests are never denied\<close>
lemma getPatchesForPodResourceRequest_error:
  "(\<forall>err. Unmarshal_Pod s raw = Inl err \<longrightarrow>
      getPatchesForPodResourceRequest s raw namespace = Some (Inl err)) \<and>
   (\<forall>pod0 err. Unmarshal_Pod s raw = Inr pod0 \<and>
      GetContainersResourcesForPod s (withGeneratedName pod0 namespace) = Inl err \<longrightarrow>
      getPatchesForPodResourceRequest s raw namespace = Some (Inl err)) \<and>
   (\<forall>pod0 found err. Unmarshal_Pod s raw = Inr pod0 \<and>
      GetContainersResourcesForPod s (withGeneratedName pod0 namespace) = Inr found \<and>
      podPreProcessor_Process s (withGeneratedName pod0 namespace) = Inl err \<longrightarrow>
      getPatchesForPodResourceRequest s raw namespace = Some (Inl err))"
  by (auto simp: getPatchesForPodResourceRequest_def Let_def split: sum.splits prod.splits)


text \<open>
  Claim C5. For a pod admission request, when the body of the pod does not parse, or the
  recommendation provider or the pod pre-processor fails, or the patch cannot be
  marshalled, \<open>admit\<close> returns \<open>Allowed = true\<close> without a patch and reports the status
  \<open>Error\<close>; whatever \<open>admit\<close> returns for a pod request has \<open>Allowed = true\<close> and no failure
  status. A review that does not parse is allowed too, as an error of an unknown resource.
\<close>

theorem admit_pod_never_denied:
  assumes "Unmarshal_AdmissionReview s data = Inr ar"
    and "Request ar = Some req"
    and "Request_Resource req = podResource"
  shows "(\<forall>err. Unmarshal_Pod s (Object_Raw req) = Inl err \<longrightarrow> admit s data = Some podErrorResult) \<and>
         (\<forall>pod0 err. Unmarshal_Pod s (Object_Raw req) = Inr pod0 \<and>
            GetContainersResourcesForPod s (withGeneratedName pod0 (Request_Namespace req)) = Inl err \<longrightarrow>
            admit s data = Some podErrorResult) \<and>
         (\<forall>pod0 found err. Unmarshal_Pod s (Object_Raw req) = Inr pod0 \<and>
            GetContainersResourcesForPod s (withGeneratedName pod0 (Request_Namespace req)) = Inr found \<and>
            podPreProcessor_Process s (withGeneratedName pod0 (Request_Namespace req)) = Inl err \<longrightarrow>
            admit s data = Some podErrorResult) \<and>
         (\<forall>patches err. getPatchesForPodResourceRequest s (Object_Raw req) (Request_Namespace req)
              = Some (Inr patches) \<and> patches \<noteq> [] \<and> Marshal s patches = Inl err \<longrightarrow>
            admit s data = Some podErrorResult) \<and>
         (\<forall>r. admit s data = Some r \<longrightarrow>
            Allowed (response r) \<and> Result (response r) = None \<and> resource r = Resource_Pod) \<and>
         (\<forall>data' err. Unmarshal_AdmissionReview s data' = Inl err \<longrightarrow>
            admit s data' = Some (podErrorResult\<lparr>resource := Resource_Unknown\<rparr>))"
proof -
  have fail: "admit s data = Some podErrorResult"
    if "getPatchesForPodResourceRequest s (Object_Raw req) (Request_Namespace req) = Some (Inl err)" for err
    using assms that by (simp add: admit_def admit_finish_error podErrorResult_def)
  have marshal: "admit s data = Some podErrorResult"
    if "getPatchesForPodResourceRequest s (Object_Raw req) (Request_Namespace req) = Some (Inr patches)"
      and "patches \<noteq> []" and "Marshal s patches = Inl err" for patches err
    using assms that by (simp add: admit_def admit_finish_def podErrorResult_def)
  have allowed: "Allowed (response r) \<and> Result (response r) = None \<and> resource r = Resource_Pod"
    if "admit s data = Some r" for r
    using assms that
    by (auto simp: admit_def admit_finish_response allowedResponse_def split: option.splits)
  have review: "admit s data' = Some (podErrorResult\<lparr>resource := Resource_Unknown\<rparr>)"
    if "Unmarshal_AdmissionReview s data' = Inl err" for data' err
    using that by (simp add: admit_def podErrorResult_def)
  from getPatchesForPodResourceRequest_error [of s "Object_Raw req" "Request_Namespace req"]
    fail marshal allowed review
  show ?thesis by blast
qed

theorem admit_pod_never_denied_witness:
  "Unmarshal_Pod example_server ''{'' = Inl (Error ''unexpected end of JSON input'') \<and>
   admit example_server ''review: pod {'' = Some podErrorResult \<and>
   Allowed (response podErrorResult) \<and> Patch (response podErrorResult) = None \<and>
   status podErrorResult = Status_Error"
proof -
  let ?req = "\<lparr>Request_Resource = podResource, Request_Namespace = ''default'',
               Operation = ''CREATE'', Object_Raw = ''{''\<rparr>"
  have h1: "Unmarshal_AdmissionReview example_server ''review: pod {'' = Inr (review_of podResource ''{'')"
    by (simp add: example_server_def)
  have h2: "Request (review_of podResource ''{'') = Some ?req"
    by (simp add: review_of_def)
  have h3: "Request_Resource ?req = podResource"
    by simp
  have bad: "Unmarshal_Pod example_server (Object_Raw ?req) = Inl (Error ''unexpected end of JSON input'')"
    by (simp add: example_server_def)
  from admit_pod_never_denied [OF h1 h2 h3] bad
  have "admit example_server ''review: pod {'' = Some podErrorResult"
    by blast
  with bad show ?thesis
    by (simp add: podErrorResult_def allowedResponse_def)
qed

subsection \<open>The patch of a pod with requests and no limits\<close>


lemma fold_append_patches:
  "fold (\<lambda>entry (ps, as). (ps @ [f entry], as @ [g entry])) es (ps0, as0) =
     (ps0 @ map f es, as0 @ map g es)"
  by (induction es arbitrary: ps0 as0) simp_all

lemma appendPatchesAndAnnotations_eq:
  "appendPatchesAndAnnotations patches annotations current i resources fieldName resourceName =
     ((if current = None \<and> rangeRL resources \<noteq> []
       then patches @ [getPatchInitializingEmptyResourcesSubfield i fieldName] else patches) @
      map (\<lambda>entry. getAddResourceRequirementValuePatch i fieldName (fst entry) (snd entry)) (rangeRL resources),
      annotations @ map (\<lambda>entry. fst entry @ '' '' @ resourceName) (rangeRL resources))"
  by (simp add: appendPatchesAndAnnotations_def Let_def fold_append_patches)

lemma getContainerPatch_requests_only:
  assumes "i < length (Containers p)"
    and "Requests (Containers p ! i) \<noteq> None"
    and "rangeRL (CR_Limits cr) = []"
  shows "getContainerPatch p i anns cr = Some (requestPatches i cr, requestAnnotation p anns i cr)"
  using assms
  by (simp add: getContainerPatch_def Let_def appendPatchesAndAnnotations_eq requestPatches_def
      requestAnnotation_def getAddResourceRequirementValuePatch_def)

lemma containerPatches_requests_only:
  assumes "\<forall>c\<in>set (Containers p). Requests c \<noteq> None"
  shows "i + length crs \<le> length (Containers p) \<Longrightarrow> \<forall>cr\<in>set crs. rangeRL (CR_Limits cr) = [] \<Longrightarrow>
    containerPatches p anns i crs patches updates =
      Some (patches @ concat (map (\<lambda>ic. requestPatches (fst ic) (snd ic)) (enumerate i crs)),
            updates @ map (\<lambda>ic. requestAnnotation p anns (fst ic) (snd ic)) (enumerate i crs))"
proof (induction crs arbitrary: i patches updates)
  case Nil
  then show ?case by simp
next
  case (Cons cr crs)
  have i: "i < length (Containers p)" using Cons.prems(1) by simp
  then have "Requests (Containers p ! i) \<noteq> None" using assms by simp
  with i Cons.prems(2)
  have one: "getContainerPatch p i anns cr = Some (requestPatches i cr, requestAnnotation p anns i cr)"
    by (simp add: getContainerPatch_requests_only)
  have "Suc i + length crs \<le> length (Containers p)" using Cons.prems(1) by simp
  moreover have "\<forall>cr\<in>set crs. rangeRL (CR_Limits cr) = []" using Cons.prems(2) by simp
  ultimately show ?case
    by (simp add: one Cons.IH)
qed

lemma digit_char_no_slash: "d < 10 \<Longrightarrow> digit_char d \<noteq> CHR ''/''"
proof -
  assume "d < 10"
  then have "d \<in> {0, 1, 2, 3, 4, 5, 6, 7, 8, 9}" by auto
  then show ?thesis by (auto simp: digit_char_def)
qed

lemma show_nat_no_slash: "CHR ''/'' \<notin> set (show_nat n)"
proof (induction n rule: show_nat.induct)
  case (1 n)
  show ?case
  proof (cases "n < 10")
    case True
    then show ?thesis using digit_char_no_slash [of n] by (subst show_nat.simps) auto
  next
    case False
    then show ?thesis
      using 1 digit_char_no_slash [of "n mod 10"] by (subst show_nat.simps) auto
  qed
qed

lemma prefix_separator:
  "CHR ''/'' \<notin> set a \<Longrightarrow> CHR ''/'' \<notin> set b \<Longrightarrow> prefix (a @ CHR ''/'' # x) (b @ CHR ''/'' # y) \<Longrightarrow> prefix x y"
proof (induction a arbitrary: b)
  case Nil
  then show ?case by (cases b) auto
next
  case (Cons c a)
  then show ?case by (cases b) auto
qed

lemma request_path_not_limits:
  "\<not> prefix (limitsPath j) (''/spec/containers/'' @ show_nat i @ ''/resources/requests/'' @ r)"
proof
  assume "prefix (limitsPath j) (''/spec/containers/'' @ show_nat i @ ''/resources/requests/'' @ r)"
  then have "prefix (show_nat j @ CHR ''/'' # ''resources/limits'')
                    (show_nat i @ CHR ''/'' # (''resources/requests/'' @ r))"
    by (simp add: limitsPath_def)
  then have "prefix ''resources/limits'' (''resources/requests/'' @ r)"
    using prefix_separator [OF show_nat_no_slash show_nat_no_slash] by blast
  then show False by simp
qed

lemma requestPatches_paths:
  "patch \<in> set (requestPatches i cr) \<Longrightarrow> Op patch = ''add'' \<and> \<not> prefix (limitsPath j) (Path patch)"
  using request_path_not_limits by (auto simp: requestPatches_def)

lemma vpaUpdatesPatch_path:
  "Op (vpaUpdatesPatch p vpaName upd) = ''add'' \<and> \<not> prefix (limitsPath j) (Path (vpaUpdatesPatch p vpaName upd))"
  by (simp add: vpaUpdatesPatch_def limitsPath_def)

lemma requestsOnlyPatch_paths:
  "patch \<in> set (requestsOnlyPatch p anns vpaName crs) \<Longrightarrow>
   Op patch = ''add'' \<and> \<not> prefix (limitsPath j) (Path patch)"
  using requestPatches_paths vpaUpdatesPatch_path
  by (auto simp: requestsOnlyPatch_def)

lemma emptyResources_patch_iff:
  assumes "getContainerPatch q i anns cr = Some (ps, a)"
  shows "(getPatchInitializingEmptyResources i \<in> set ps) =
         (Limits (Containers q ! i) = None \<and> Requests (Containers q ! i) = None)"
  using assms
  by (auto simp: getContainerPatch_def Let_def appendPatchesAndAnnotations_eq
      getPatchInitializingEmptyResources_def getPatchInitializingEmptyResourcesSubfield_def
      getAddResourceRequirementValuePatch_def split: if_splits)


text \<open>
  Claim C6. For a pod whose containers declare requests and no limits, and recommended
  container resources that hold requests only, the patch is exactly: for each container
  in turn, an \<open>add\<close> at \<open>/spec/containers/i/resources/requests/resource\<close> of the recommended
  quantity for each recommended resource; then one \<open>add\<close> of the \<open>vpaUpdates\<close> annotation,
  which names the config and lists per container (\<open>container i: \<close>) the container's
  capping annotations and \<open>resource request\<close> for each request set. Every operation is an
  \<open>add\<close>, no path is under \<open>/spec/containers/j/resources/limits\<close>, and \<open>getContainerPatch\<close>
  adds the empty resources object iff the container has neither requests nor limits.
\<close>

theorem pod_patch_requests_only:
  assumes "Unmarshal_Pod s raw = Inr pod0"
    and "GetContainersResourcesForPod s (withGeneratedName pod0 namespace)
           = Inr (containersResources, annotations0, vpaName)"
    and "podPreProcessor_Process s (withGeneratedName pod0 namespace) = Inr p"
    and "containersResources \<noteq> []"
    and "length containersResources \<le> length (Containers p)"
    and "\<forall>c\<in>set (Containers p). Requests c \<noteq> None \<and> Limits c = None"
    and "\<forall>cr\<in>set containersResources. rangeRL (CR_Limits cr) = []"
  shows "getPatchesForPodResourceRequest s raw namespace =
           Some (Inr (requestsOnlyPatch p (case annotations0 of None \<Rightarrow> [] | Some m \<Rightarrow> m)
                        vpaName containersResources)) \<and>
         (\<forall>patch\<in>set (requestsOnlyPatch p (case annotations0 of None \<Rightarrow> [] | Some m \<Rightarrow> m)
                         vpaName containersResources).
            Op patch = ''add'' \<and> (\<forall>j. \<not> prefix (limitsPath j) (Path patch))) \<and>
         (\<forall>q i anns cr ps a. getContainerPatch q i anns cr = Some (ps, a) \<longrightarrow>
            (getPatchInitializingEmptyResources i \<in> set ps) =
            (Limits (Containers q ! i) = None \<and> Requests (Containers q ! i) = None))"
proof -
  let ?anns = "case annotations0 of None \<Rightarrow> [] | Some m \<Rightarrow> m"
  have req: "\<forall>c\<in>set (Containers p). Requests c \<noteq> None" using assms(6) by simp
  have loop: "containerPatches p ?anns 0 containersResources [] [] =
      Some (concat (map (\<lambda>ic. requestPatches (fst ic) (snd ic)) (enumerate 0 containersResources)),
            map (\<lambda>ic. requestAnnotation p ?anns (fst ic) (snd ic)) (enumerate 0 containersResources))"
    using containerPatches_requests_only [OF req, of 0 containersResources ?anns "[]" "[]"] assms(5,7)
    by simp
  have ne: "enumerate 0 containersResources \<noteq> []"
    using assms(4) by (cases containersResources) simp_all
  have "getPatchesForPodResourceRequest s raw namespace =
           Some (Inr (requestsOnlyPatch p ?anns vpaName containersResources))"
    using assms(1-3) ne
    by (simp add: getPatchesForPodResourceRequest_def Let_def loop requestsOnlyPatch_def vpaUpdatesPatch_def)
  then show ?thesis
    using requestsOnlyPatch_paths emptyResources_patch_iff by blast
qed

theorem pod_patch_requests_only_witness:
  "getPatchesForPodResourceRequest example_server ''pod P1'' ''default'' =
     Some (Inr [\<lparr>Op = ''add'', Path = ''/spec/containers/0/resources/requests/cpu'',
                  Value = QuantityString (300 / 1000)\<rparr>,
                \<lparr>Op = ''add'', Path = ''/metadata/annotations'',
                  Value = StringMapValue
                    [(''vpaUpdates'', ''Pod resources updated by my-vpa: container 0: cpu request'')]\<rparr>])"
proof -
  let ?crs = "[\<lparr>CR_Requests = Some [(''cpu'', 300 / 1000)], CR_Limits = None\<rparr>]"
  have name: "withGeneratedName P1 ''default'' = P1"
    by (simp add: withGeneratedName_def P1_def example_pod_def)
  have h1: "Unmarshal_Pod example_server ''pod P1'' = Inr P1"
    by (simp add: example_server_def)
  have h2: "GetContainersResourcesForPod example_server (withGeneratedName P1 ''default'')
              = Inr (?crs, None, ''my-vpa'')"
    unfolding name by (simp add: example_server_def P1_def example_pod_def)
  have h3: "podPreProcessor_Process example_server (withGeneratedName P1 ''default'') = Inr P1"
    unfolding name by (simp add: example_server_def)
  have h4: "?crs \<noteq> []"
    by simp
  have h5: "length ?crs \<le> length (Containers P1)"
    by (simp add: P1_def example_pod_def)
  have h6: "\<forall>c\<in>set (Containers P1). Requests c \<noteq> None \<and> Limits c = None"
    by (simp add: P1_def example_pod_def cpu_container_def)
  have h7: "\<forall>cr\<in>set ?crs. rangeRL (CR_Limits cr) = []"
    by (simp add: rangeRL_def)
  have patch: "requestsOnlyPatch P1 (case None of None \<Rightarrow> [] | Some m \<Rightarrow> m) ''my-vpa'' ?crs =
      [\<lparr>Op = ''add'', Path = ''/spec/containers/0/resources/requests/cpu'',
                  Value = QuantityString (300 / 1000)\<rparr>,
                \<lparr>Op = ''add'', Path = ''/metadata/annotations'',
                  Value = StringMapValue
                    [(''vpaUpdates'', ''Pod resources updated by my-vpa: container 0: cpu request'')]\<rparr>]"
    by code_simp
  from pod_patch_requests_only [OF h1 h2 h3 h4 h5 h6 h7]
  show ?thesis
    unfolding patch by blast
qed

section \<open>Properties of the limit range calculator\<close>

lemma lookupRL_updatedResult:
  "lookupRL (updatedResult result0 lrItem n picker) r =
     (if r = n then combine picker (lookupRL result0 n) (lookupRL lrItem n)
      else if result0 = None then lookupRL lrItem r else lookupRL result0 r)"
  by (auto simp: updatedResult_def lookupRL_def combine_def update_conv' split: option.splits)

lemma updatedResult_None_iff:
  "(updatedResult result0 lrItem n picker = None) = (result0 = None \<and> lrItem = None)"
  by (auto simp: updatedResult_def split: option.splits)

lemma combine_same: "(\<And>q. picker q q = q) \<Longrightarrow> combine picker b b = combine picker None b"
  by (auto simp: combine_def split: option.splits)

lemma lookupRL_None: "lookupRL None r = None"
  by (simp add: lookupRL_def)

lemma combine_None: "combine picker a None = a"
  by (simp add: combine_def)

lemma lookupRL_updatedResult_twice:
  assumes idem: "\<And>q. picker q q = q" and r: "r = ResourceCPU \<or> r = ResourceMemory"
  shows "lookupRL (updatedResult (updatedResult result0 lrItem ResourceCPU picker) lrItem ResourceMemory picker) r =
         combine picker (lookupRL result0 r) (lookupRL lrItem r)"
proof -
  have ne: "ResourceCPU \<noteq> ResourceMemory" by (simp add: ResourceCPU_def ResourceMemory_def)
  show ?thesis
  proof (cases "r = ResourceCPU")
    case True
    show ?thesis
    proof (cases "result0 = None \<and> lrItem = None")
      case True
      with \<open>r = ResourceCPU\<close> ne show ?thesis
        by (simp add: lookupRL_updatedResult updatedResult_None_iff lookupRL_None combine_None)
    next
      case False
      with \<open>r = ResourceCPU\<close> ne show ?thesis
        by (auto simp: lookupRL_updatedResult updatedResult_None_iff)
    qed
  next
    case False
    with r have m: "r = ResourceMemory" by simp
    show ?thesis
    proof (cases "result0 = None")
      case True
      then show ?thesis
        using ne m combine_same [of picker "lookupRL lrItem ResourceMemory", OF idem]
        by (simp add: lookupRL_updatedResult lookupRL_None)
    next
      case False
      then show ?thesis using ne m by (auto simp: lookupRL_updatedResult)
    qed
  qed
qed

lemma pickLowerMax_min: "pickLowerMax q1 q2 = min q1 q2"
  by (simp add: pickLowerMax_def Cmp_def min_def)

lemma chooseHigherMin_max: "chooseHigherMin q1 q2 = max q1 q2"
  by (simp add: chooseHigherMin_def Cmp_def max_def)

lemma limitStep_skip: "\<not> qualifies limitType lri \<Longrightarrow> limitStep limitType lri acc = acc"
  by (auto simp: limitStep_def qualifies_def)

lemma fold_limitStep_filter:
  "fold (limitStep limitType) xs acc = fold (limitStep limitType) (filter (qualifies limitType) xs) acc"
  by (induction xs arbitrary: acc) (simp_all add: limitStep_skip)

lemma limitStep_Max:
  assumes "qualifies limitType lri" and "r = ResourceCPU \<or> r = ResourceMemory"
  shows "lookupRL (Item_Max (limitStep limitType lri acc)) r =
         combine min (lookupRL (Item_Max acc) r) (lookupRL (Item_Max lri) r)"
proof -
  have "pickLowerMax = min" by (intro ext) (rule pickLowerMax_min)
  then show ?thesis
    using assms lookupRL_updatedResult_twice [of min r "Item_Max acc" "Item_Max lri"]
    by (simp add: limitStep_def qualifies_def Let_def)
qed

lemma limitStep_Min:
  assumes "qualifies limitType lri" and "r = ResourceCPU \<or> r = ResourceMemory"
  shows "lookupRL (Item_Min (limitStep limitType lri acc)) r =
         combine max (lookupRL (Item_Min acc) r) (lookupRL (Item_Min lri) r)"
proof -
  have "chooseHigherMin = max" by (intro ext) (rule chooseHigherMin_max)
  then show ?thesis
    using assms lookupRL_updatedResult_twice [of max r "Item_Min acc" "Item_Min lri"]
    by (simp add: limitStep_def qualifies_def Let_def)
qed

lemma limitStep_Default:
  "qualifies limitType lri \<Longrightarrow>
   Item_Default (limitStep limitType lri acc) =
     (if Item_Default lri \<noteq> None then Item_Default lri else Item_Default acc)"
  by (simp add: limitStep_def qualifies_def Let_def)

lemma limitStep_Type: "Item_Type (limitStep limitType lri acc) = Item_Type acc"
  by (simp add: limitStep_def Let_def)

lemma limitStep_set:
  "qualifies limitType lri \<Longrightarrow>
   Item_Min (limitStep limitType lri acc) \<noteq> None \<or> Item_Max (limitStep limitType lri acc) \<noteq> None \<or>
   Item_Default (limitStep limitType lri acc) \<noteq> None"
  by (auto simp: limitStep_def qualifies_def Let_def updatedResult_None_iff)

lemma limitStep_keeps_set:
  "Item_Min acc \<noteq> None \<or> Item_Max acc \<noteq> None \<or> Item_Default acc \<noteq> None \<Longrightarrow>
   Item_Min (limitStep limitType lri acc) \<noteq> None \<or> Item_Max (limitStep limitType lri acc) \<noteq> None \<or>
   Item_Default (limitStep limitType lri acc) \<noteq> None"
  by (auto simp: limitStep_def Let_def updatedResult_None_iff)

lemma fold_limitStep_keeps_set:
  "Item_Min acc \<noteq> None \<or> Item_Max acc \<noteq> None \<or> Item_Default acc \<noteq> None \<Longrightarrow>
   Item_Min (fold (limitStep limitType) xs acc) \<noteq> None \<or>
   Item_Max (fold (limitStep limitType) xs acc) \<noteq> None \<or>
   Item_Default (fold (limitStep limitType) xs acc) \<noteq> None"
proof (induction xs arbitrary: acc)
  case Nil
  then show ?case by simp
next
  case (Cons x xs)
  have "Item_Min (limitStep limitType x acc) \<noteq> None \<or> Item_Max (limitStep limitType x acc) \<noteq> None \<or>
        Item_Default (limitStep limitType x acc) \<noteq> None"
    by (rule limitStep_keeps_set [OF Cons.prems])
  then have "Item_Min (fold (limitStep limitType) xs (limitStep limitType x acc)) \<noteq> None \<or>
        Item_Max (fold (limitStep limitType) xs (limitStep limitType x acc)) \<noteq> None \<or>
        Item_Default (fold (limitStep limitType) xs (limitStep limitType x acc)) \<noteq> None"
    by (rule Cons.IH)
  then show ?case by simp
qed

lemma fold_limitStep_set:
  assumes "\<forall>lri\<in>set xs. qualifies limitType lri" and "xs \<noteq> []"
  shows "Item_Min (fold (limitStep limitType) xs acc) \<noteq> None \<or>
         Item_Max (fold (limitStep limitType) xs acc) \<noteq> None \<or>
         Item_Default (fold (limitStep limitType) xs acc) \<noteq> None"
proof (cases xs)
  case Nil
  with assms(2) show ?thesis by simp
next
  case (Cons x rest)
  then have "qualifies limitType x" using assms(1) by simp
  then have "Item_Min (limitStep limitType x acc) \<noteq> None \<or> Item_Max (limitStep limitType x acc) \<noteq> None \<or>
        Item_Default (limitStep limitType x acc) \<noteq> None"
    by (rule limitStep_set)
  then have "Item_Min (fold (limitStep limitType) rest (limitStep limitType x acc)) \<noteq> None \<or>
        Item_Max (fold (limitStep limitType) rest (limitStep limitType x acc)) \<noteq> None \<or>
        Item_Default (fold (limitStep limitType) rest (limitStep limitType x acc)) \<noteq> None"
    by (rule fold_limitStep_keeps_set)
  with Cons show ?thesis by simp
qed

lemma fold_limitStep_Type: "Item_Type (fold (limitStep limitType) xs acc) = Item_Type acc"
  by (induction xs arbitrary: acc) (simp_all add: limitStep_Type)

lemma fold_limitStep_Max:
  assumes "r = ResourceCPU \<or> r = ResourceMemory"
  shows "\<forall>lri\<in>set xs. qualifies limitType lri \<Longrightarrow>
         lookupRL (Item_Max (fold (limitStep limitType) xs acc)) r =
         fold (\<lambda>lri a. combine min a (lookupRL (Item_Max lri) r)) xs (lookupRL (Item_Max acc) r)"
  by (induction xs arbitrary: acc) (simp_all add: limitStep_Max [OF _ assms])

lemma fold_limitStep_Min:
  assumes "r = ResourceCPU \<or> r = ResourceMemory"
  shows "\<forall>lri\<in>set xs. qualifies limitType lri \<Longrightarrow>
         lookupRL (Item_Min (fold (limitStep limitType) xs acc)) r =
         fold (\<lambda>lri a. combine max a (lookupRL (Item_Min lri) r)) xs (lookupRL (Item_Min acc) r)"
  by (induction xs arbitrary: acc) (simp_all add: limitStep_Min [OF _ assms])

lemma lastDefault_Cons:
  "lastDefault (x # xs) = (case lastDefault xs of None \<Rightarrow> Item_Default x | Some d \<Rightarrow> Some d)"
proof (cases "filter (\<lambda>lri. Item_Default lri \<noteq> None) xs = []")
  case True
  then show ?thesis by (auto simp: lastDefault_def)
next
  case False
  then have "last (filter (\<lambda>lri. Item_Default lri \<noteq> None) xs) \<in> set (filter (\<lambda>lri. Item_Default lri \<noteq> None) xs)"
    by (rule last_in_set)
  then have "Item_Default (last (filter (\<lambda>lri. Item_Default lri \<noteq> None) xs)) \<noteq> None"
    by simp
  with False show ?thesis by (auto simp: lastDefault_def)
qed

lemma fold_limitStep_Default:
  "\<forall>lri\<in>set xs. qualifies limitType lri \<Longrightarrow>
   Item_Default (fold (limitStep limitType) xs acc) =
     (case lastDefault xs of None \<Rightarrow> Item_Default acc | Some d \<Rightarrow> Some d)"
proof (induction xs arbitrary: acc)
  case Nil
  then show ?case by (simp add: lastDefault_def)
next
  case (Cons x xs)
  then have q: "qualifies limitType x" and rest: "\<forall>lri\<in>set xs. qualifies limitType lri" by simp_all
  show ?case
    using Cons.IH [OF rest, of "limitStep limitType x acc"] q
    by (auto simp: lastDefault_Cons limitStep_Default split: option.splits)
qed

lemma smallest_merge: "smallest (x # q # rest) = smallest (min x q # rest)"
  by (cases rest) (simp_all add: smallest_def min.assoc)

lemma largest_merge: "largest (x # q # rest) = largest (max x q # rest)"
  by (cases rest) (simp_all add: largest_def max.assoc)

lemma combine_Some: "combine picker a (Some q) = Some (case a of None \<Rightarrow> q | Some x \<Rightarrow> picker x q)"
  by (simp add: combine_def split: option.splits)

lemma fold_sublists: "fold f (concat xss) acc = fold (\<lambda>xs a. fold f xs a) xss acc"
  by (induction xss arbitrary: acc) simp_all

lemma fold_combine_min:
  "fold (\<lambda>lri a. combine min a (g lri)) xs a = smallest (opt_list a @ List.map_filter g xs)"
proof (induction xs arbitrary: a)
  case Nil
  then show ?case by (cases a) (simp_all add: smallest_def opt_list_def map_filter_simps)
next
  case (Cons x xs)
  show ?case
  proof (cases "g x")
    case None
    then show ?thesis by (simp add: Cons.IH combine_None map_filter_simps)
  next
    case (Some q)
    then show ?thesis
      by (cases a) (simp_all add: Cons.IH combine_Some map_filter_simps opt_list_def smallest_merge)
  qed
qed

lemma fold_combine_max:
  "fold (\<lambda>lri a. combine max a (g lri)) xs a = largest (opt_list a @ List.map_filter g xs)"
proof (induction xs arbitrary: a)
  case Nil
  then show ?case by (cases a) (simp_all add: largest_def opt_list_def map_filter_simps)
next
  case (Cons x xs)
  show ?case
  proof (cases "g x")
    case None
    then show ?thesis by (simp add: Cons.IH combine_None map_filter_simps)
  next
    case (Some q)
    then show ?thesis
      by (cases a) (simp_all add: Cons.IH combine_Some map_filter_simps opt_list_def largest_merge)
  qed
qed


text \<open>
  Claim C10. When the lister returns the limit ranges of the namespace,
  \<open>getLimitRangeItem\<close> returns nil iff no item of the requested type sets a minimum, a
  maximum or a default. Otherwise it returns one item of that type whose maximum for cpu
  and for memory is the smallest of the maxima that the items set for that resource, whose
  minimum for cpu and for memory is the largest of the minima, and whose default is the
  last default that is set.
\<close>

theorem getLimitRangeItem_combined:
  assumes "limitRangeLister namespace = Inr limitRanges"
  shows "(itemsOfType limitType limitRanges = [] \<longrightarrow>
            getLimitRangeItem limitRangeLister namespace limitType = Inr None) \<and>
         (itemsOfType limitType limitRanges \<noteq> [] \<longrightarrow>
            (\<exists>item. getLimitRangeItem limitRangeLister namespace limitType = Inr (Some item) \<and>
               Item_Type item = limitType \<and>
               (\<forall>r\<in>{ResourceCPU, ResourceMemory}.
                  lookupRL (Item_Max item) r = smallest (maximaOf (itemsOfType limitType limitRanges) r) \<and>
                  lookupRL (Item_Min item) r = largest (minimaOf (itemsOfType limitType limitRanges) r)) \<and>
               Item_Default item = lastDefault (itemsOfType limitType limitRanges)))"
proof -
  define init where "init = \<lparr>Item_Type = limitType, Item_Max = None, Item_Min = None, Item_Default = None\<rparr>"
  define its where "its = itemsOfType limitType limitRanges"
  define result0 where "result0 = fold (limitStep limitType) its init"
  have its_q: "\<forall>lri\<in>set its. qualifies limitType lri"
    by (simp add: its_def itemsOfType_def)
  have loop: "fold (\<lambda>lr acc. fold (limitStep limitType) lr acc) limitRanges init = result0"
  proof -
    have "fold (\<lambda>lr acc. fold (limitStep limitType) lr acc) limitRanges init
            = fold (limitStep limitType) (concat limitRanges) init"
      by (simp add: fold_sublists)
    also have "\<dots> = fold (limitStep limitType) (filter (qualifies limitType) (concat limitRanges)) init"
      by (rule fold_limitStep_filter)
    also have "filter (qualifies limitType) (concat limitRanges) = its"
      by (simp add: its_def itemsOfType_def)
    finally show ?thesis by (simp add: result0_def)
  qed
  have res: "getLimitRangeItem limitRangeLister namespace limitType =
      (if Item_Min result0 \<noteq> None \<or> Item_Max result0 \<noteq> None \<or> Item_Default result0 \<noteq> None
       then Inr (Some result0) else Inr None)"
    using assms loop by (simp add: getLimitRangeItem_def init_def Let_def)
  have empty: "getLimitRangeItem limitRangeLister namespace limitType = Inr None" if "its = []"
    using that res by (simp add: result0_def init_def)
  have nonempty: "getLimitRangeItem limitRangeLister namespace limitType = Inr (Some result0)" if "its \<noteq> []"
    using res fold_limitStep_set [OF its_q that, of init] by (simp add: result0_def)
  have ty: "Item_Type result0 = limitType"
    by (simp add: result0_def fold_limitStep_Type init_def)
  have mx: "lookupRL (Item_Max result0) r = smallest (maximaOf its r)"
    if "r = ResourceCPU \<or> r = ResourceMemory" for r
    using fold_limitStep_Max [OF that its_q, of init]
    by (simp add: result0_def fold_combine_min init_def lookupRL_None opt_list_def maximaOf_def)
  have mn: "lookupRL (Item_Min result0) r = largest (minimaOf its r)"
    if "r = ResourceCPU \<or> r = ResourceMemory" for r
    using fold_limitStep_Min [OF that its_q, of init]
    by (simp add: result0_def fold_combine_max init_def lookupRL_None opt_list_def minimaOf_def)
  have df: "Item_Default result0 = lastDefault its"
    using fold_limitStep_Default [OF its_q, of init]
    by (simp add: result0_def init_def split: option.splits)
  from empty nonempty ty mx mn df show ?thesis
    unfolding its_def [symmetric] by auto
qed

theorem getLimitRangeItem_combined_witness:
  "example_lister ''default'' = Inr example_limitRanges \<and>
   itemsOfType ''Container'' example_limitRanges \<noteq> [] \<and>
   (\<exists>item. getLimitRangeItem example_lister ''default'' ''Container'' = Inr (Some item) \<and>
      lookupRL (Item_Max item) ResourceCPU = Some 2 \<and>
      lookupRL (Item_Max item) ResourceMemory = Some 8 \<and>
      lookupRL (Item_Min item) ResourceCPU = Some (1 / 5) \<and>
      Item_Default item = Some [(''cpu'', 1 / 2)])"
proof -
  have h: "example_lister ''default'' = Inr example_limitRanges"
    by (simp add: example_lister_def)
  have ne: "itemsOfType ''Container'' example_limitRanges \<noteq> []"
    by code_simp
  have v1: "smallest (maximaOf (itemsOfType ''Container'' example_limitRanges) ResourceCPU) = Some 2"
    by code_simp
  have v2: "smallest (maximaOf (itemsOfType ''Container'' example_limitRanges) ResourceMemory) = Some 8"
    by code_simp
  have v3: "largest (minimaOf (itemsOfType ''Container'' example_limitRanges) ResourceCPU) = Some (1 / 5)"
    by code_simp
  have v4: "lastDefault (itemsOfType ''Container'' example_limitRanges) = Some [(''cpu'', 1 / 2)]"
    by code_simp
  from getLimitRangeItem_combined
         [where limitRangeLister = example_lister and namespace = "''default''" and
            limitType = "''Container''", OF h] ne
  obtain item where item: "getLimitRangeItem example_lister ''default'' ''Container'' = Inr (Some item)"
      "\<forall>r\<in>{ResourceCPU, ResourceMemory}.
                  lookupRL (Item_Max item) r = smallest (maximaOf (itemsOfType ''Container'' example_limitRanges) r) \<and>
                  lookupRL (Item_Min item) r = largest (minimaOf (itemsOfType ''Container'' example_limitRanges) r)"
      "Item_Default item = lastDefault (itemsOfType ''Container'' example_limitRanges)"
    by blast
  from item(2) v1 v2 v3 have "lookupRL (Item_Max item) ResourceCPU = Some 2 \<and>
      lookupRL (Item_Max item) ResourceMemory = Some 8 \<and>
      lookupRL (Item_Min item) ResourceCPU = Some (1 / 5)"
    by simp
  with item(1) item(3) v4 h ne show ?thesis by simp
qed

section \<open>Properties of the recommender\<close>

subsection \<open>The uncapped target\<close>


lemma capContainer_keeps:
  "ContainerName (capContainer p c) = ContainerName c \<and> UncappedTarget (capContainer p c) = UncappedTarget c"
  by (simp add: capContainer_def split: option.splits)

lemma containerResourcesOf_entries:
  "c \<in> set (containerResourcesOf asList resources) \<Longrightarrow>
   \<exists>entry\<in>set resources. ContainerName c = fst entry \<and> Target c = asList (Raw_Target (snd entry)) \<and>
      UncappedTarget c = asList (Raw_Target (snd entry))"
  by (force simp: containerResourcesOf_def)

lemma ApplyVPAPolicy_result:
  "\<exists>cs'. ApplyVPAPolicy (Some cs) policy = Inr (Some cs') \<and>
     (\<forall>c'\<in>set cs'. \<exists>c\<in>set cs. ContainerName c' = ContainerName c \<and> UncappedTarget c' = UncappedTarget c)"
proof (cases policy)
  case None
  then show ?thesis by (auto simp: ApplyVPAPolicy_def)
next
  case (Some p)
  have "\<exists>c\<in>set cs. ContainerName c' = ContainerName c \<and> UncappedTarget c' = UncappedTarget c"
    if "c' \<in> set (map (capContainer p) (filter (\<lambda>containerRec. \<not> scalingOff p containerRec) cs))" for c'
  proof -
    from that obtain c where "c \<in> set cs" "c' = capContainer p c" by auto
    then show ?thesis using capContainer_keeps [of p c] by blast
  qed
  with Some show ?thesis by (simp add: ApplyVPAPolicy_def)
qed


text \<open>
  Claim C7. Every container in the result of \<open>getCappedRecommendation\<close> carries, as its
  UncappedTarget, the raw recommended target of the container of its name, as a resource
  list: both when the policy is applied (with the capping taken from the specification,
  which changes Target, LowerBound and UpperBound only) and when applying the policy
  fails, where the recommendation is returned as built, with UncappedTarget equal to
  Target.
\<close>

theorem getCappedRecommendation_UncappedTarget:
  "(\<exists>cs. getCappedRecommendation ApplyVPAPolicy asList vpaID resources policy = Some cs \<and>
      (\<forall>c\<in>set cs. \<exists>entry\<in>set resources.
         ContainerName c = fst entry \<and> UncappedTarget c = asList (Raw_Target (snd entry)))) \<and>
   (\<forall>apply err. apply (Some (containerResourcesOf asList resources)) policy = Inl err \<longrightarrow>
      getCappedRecommendation apply asList vpaID resources policy
        = Some (containerResourcesOf asList resources)) \<and>
   (\<forall>c\<in>set (containerResourcesOf asList resources). \<exists>entry\<in>set resources.
      ContainerName c = fst entry \<and> Target c = asList (Raw_Target (snd entry)) \<and>
      UncappedTarget c = asList (Raw_Target (snd entry))) \<and>
   (\<forall>p c. ContainerName (capContainer p c) = ContainerName c \<and>
          UncappedTarget (capContainer p c) = UncappedTarget c)"
proof -
  obtain cs' where cs': "ApplyVPAPolicy (Some (containerResourcesOf asList resources)) policy = Inr (Some cs')"
    and keep: "\<forall>c'\<in>set cs'. \<exists>c\<in>set (containerResourcesOf asList resources).
                 ContainerName c' = ContainerName c \<and> UncappedTarget c' = UncappedTarget c"
    using ApplyVPAPolicy_result by blast
  have res: "getCappedRecommendation ApplyVPAPolicy asList vpaID resources policy = Some cs'"
    by (simp add: getCappedRecommendation_def cs')
  have "\<exists>entry\<in>set resources. ContainerName c' = fst entry \<and> UncappedTarget c' = asList (Raw_Target (snd entry))"
    if "c' \<in> set cs'" for c'
  proof -
    from keep that obtain c where c: "c \<in> set (containerResourcesOf asList resources)"
      "ContainerName c' = ContainerName c" "UncappedTarget c' = UncappedTarget c" by blast
    from containerResourcesOf_entries [OF c(1)] c(2,3) show ?thesis by auto
  qed
  with res have first: "\<exists>cs. getCappedRecommendation ApplyVPAPolicy asList vpaID resources policy = Some cs \<and>
      (\<forall>c\<in>set cs. \<exists>entry\<in>set resources.
         ContainerName c = fst entry \<and> UncappedTarget c = asList (Raw_Target (snd entry)))"
    by blast
  have second: "\<forall>apply err. apply (Some (containerResourcesOf asList resources)) policy = Inl err \<longrightarrow>
      getCappedRecommendation apply asList vpaID resources policy
        = Some (containerResourcesOf asList resources)"
    by (simp add: getCappedRecommendation_def)
  from first second containerResourcesOf_entries capContainer_keeps show ?thesis
    by blast
qed

theorem getCappedRecommendation_UncappedTarget_witness:
  "getCappedRecommendation ApplyVPAPolicy example_asList (''default'', ''my-vpa'') example_raw
     (Some example_policy) = Some [example_capped] \<and>
   Target example_capped = Some [(''cpu'', 100 / 1000)] \<and>
   (\<exists>entry\<in>set example_raw.
      ContainerName example_capped = fst entry \<and>
      UncappedTarget example_capped = example_asList (Raw_Target (snd entry)))"
proof -
  have ev: "getCappedRecommendation ApplyVPAPolicy example_asList (''default'', ''my-vpa'') example_raw
     (Some example_policy) = Some [example_capped]"
    by code_simp
  from getCappedRecommendation_UncappedTarget
         [of example_asList "(''default'', ''my-vpa'')" example_raw "Some example_policy"]
  have "\<exists>entry\<in>set example_raw.
      ContainerName example_capped = fst entry \<and>
      UncappedTarget example_capped = example_asList (Raw_Target (snd entry))"
    unfolding ev by simp
  with ev show ?thesis by (simp add: example_capped_def)
qed

subsection \<open>One iteration of the recommender\<close>

lemma updateVPA_absent:
  "map_of (Vpas (clusterState r)) (configKey observed) = None \<Longrightarrow> updateVPA c observed r = r"
  by (simp add: updateVPA_def configKey_def)

lemma updateVPA_found:
  "map_of (Vpas (clusterState r)) (configKey observed) = Some vpa0 \<Longrightarrow>
   updateVPA c observed r =
     r\<lparr>clusterState := recordedState c (clusterState r) observed vpa0 (clock r (reads r)),
       events := events r @ statusWrite c (clusterState r) observed vpa0,
       reads := Suc (reads r)\<rparr>"
  by (simp add: updateVPA_def configKey_def Let_def time_Now_def emit_def UpdateVpaStatusIfNeeded_def
      recordedState_def recommendedVpa_def statusWrite_def)

lemma fold_updateVPA_outcome:
  "fold (updateVPA c) os r =
     r\<lparr>clusterState := snd (snd (updateOutcome c (clock r) os (reads r) (clusterState r))),
       events := events r @ fst (updateOutcome c (clock r) os (reads r) (clusterState r)),
       reads := fst (snd (updateOutcome c (clock r) os (reads r) (clusterState r)))\<rparr>"
proof (induction os arbitrary: r)
  case Nil
  then show ?case by simp
next
  case (Cons observed os)
  show ?case
  proof (cases "map_of (Vpas (clusterState r)) (configKey observed)")
    case None
    then show ?thesis by (simp add: updateVPA_absent Cons.IH)
  next
    case (Some vpa0)
    then show ?thesis by (simp add: updateVPA_found Cons.IH)
  qed
qed

lemma loadSteps_result:
  "loadSteps c r =
     r\<lparr>clusterState := LoadRealTimeMetrics c (LoadPods c (LoadVPAs c (clusterState r))),
       events := events r @
         [Call_LoadVPAs, ObserveStep ''LoadVPAs'', Call_LoadPods, ObserveStep ''LoadPods'',
          Call_LoadRealTimeMetrics, ObserveStep ''LoadMetrics'']\<rparr>"
  by (simp add: loadSteps_def Let_def emit_def)

lemma MaintainCheckpoints_events:
  "events (MaintainCheckpoints c deadline m r) = events r @
     (if useCheckpoints r
      then Call_StoreCheckpoints deadline (clock r (reads r)) m #
           (if Time_Sub (clock r (Suc (reads r))) (lastCheckpointGC r) > checkpointsGCInterval r
            then [Call_GarbageCollectCheckpoints] else [])
      else [])"
  by (simp add: MaintainCheckpoints_def Let_def time_Now_def emit_def)

lemma MaintainCheckpoints_frame:
  "lastAggregateContainerStateGC (MaintainCheckpoints c deadline m r) = lastAggregateContainerStateGC r \<and>
   clock (MaintainCheckpoints c deadline m r) = clock r \<and>
   reads (MaintainCheckpoints c deadline m r) = reads r + (if useCheckpoints r then 2 else 1) \<and>
   lastCheckpointGC (MaintainCheckpoints c deadline m r) =
     (if useCheckpoints r \<and> Time_Sub (clock r (Suc (reads r))) (lastCheckpointGC r) > checkpointsGCInterval r
      then clock r (reads r) else lastCheckpointGC r)"
  by (simp add: MaintainCheckpoints_def Let_def time_Now_def emit_def)

lemma GarbageCollect_events:
  "events (GarbageCollect c r) = events r @
     (if Time_Sub (clock r (reads r)) (lastAggregateContainerStateGC r) > AggregateContainerStateGCInterval
      then [Call_GarbageCollectAggregateCollectionStates (clock r (reads r))] else [])"
  by (simp add: GarbageCollect_def Let_def time_Now_def emit_def)

lemma GarbageCollect_frame:
  "lastCheckpointGC (GarbageCollect c r) = lastCheckpointGC r \<and>
   lastAggregateContainerStateGC (GarbageCollect c r) =
     (if Time_Sub (clock r (reads r)) (lastAggregateContainerStateGC r) > AggregateContainerStateGCInterval
      then clock r (reads r) else lastAggregateContainerStateGC r)"
  by (simp add: GarbageCollect_def Let_def time_Now_def emit_def)

lemma emit_frame:
  "clock (emit es r) = clock r \<and> useCheckpoints (emit es r) = useCheckpoints r \<and>
   lastAggregateContainerStateGC (emit es r) = lastAggregateContainerStateGC r \<and>
   lastCheckpointGC (emit es r) = lastCheckpointGC r \<and>
   checkpointsGCInterval (emit es r) = checkpointsGCInterval r \<and>
   reads (emit es r) = reads r \<and>
   clusterState (emit es r) = clusterState r \<and>
   events (emit es r) = events r @ es"
  by (simp add: emit_def)

text \<open>
  Claim C8, as stated, at a recommender that does not use checkpoints (the storage mode
  prometheus): the iteration goes through the step MaintainCheckpoints, and the timer
  observes it, but no checkpoint is written.
\<close>

theorem RunOnce_without_checkpoints:
  "events (RunOnce example_collaborators (example_recommender\<lparr>useCheckpoints := False\<rparr>)) =
     [Call_LoadVPAs, ObserveStep ''LoadVPAs'', Call_LoadPods, ObserveStep ''LoadPods'',
      Call_LoadRealTimeMetrics, ObserveStep ''LoadMetrics'',
      PatchVpaStatus (''default'', ''my-vpa'')
        \<lparr>Status_Recommendation = Some [example_capped], Status_Conditions = []\<rparr>,
      ObserveStep ''UpdateVPAs'',
      ObserveStep ''MaintainCheckpoints'',
      Call_GarbageCollectAggregateCollectionStates (3 * Minute),
      ObserveStep ''GarbageCollect'', Call_cancelFunc, ObserveTotal]"
  by code_simp

text \<open>
  Claim C8, amended. The events of one \<open>RunOnce\<close> are exactly these, in this order:
  LoadVPAs, LoadPods, LoadRealTimeMetrics, each followed by the observation of its step;
  the status writes of UpdateVPAs, one for each observed config, in their order, whose key
  is in the model and whose new status differs from the status of that observed config,
  carrying the id and the new status of that config; in the step MaintainCheckpoints, iff
  the recommender uses checkpoints, StoreCheckpoints under the deadline (the first clock
  reading plus the checkpoints timeout) with the time read at the start of the step, and
  then the collection of checkpoints iff, at the next reading, more than the checkpoints GC
  interval has passed since the last collection of checkpoints; in the step GarbageCollect,
  the collection of the aggregate states iff more than one hour has passed since the last
  one. The time of the last collection of the aggregates becomes the time of this one, and
  the time of the last collection of checkpoints the time read at the start of the step
  MaintainCheckpoints.
\<close>

theorem RunOnce_sequence:
  "events (RunOnce c r) =
     events r @
     [Call_LoadVPAs, ObserveStep ''LoadVPAs'', Call_LoadPods, ObserveStep ''LoadPods'',
      Call_LoadRealTimeMetrics, ObserveStep ''LoadMetrics''] @
     statusWrites c r @ [ObserveStep ''UpdateVPAs''] @
     (if useCheckpoints r
      then Call_StoreCheckpoints (clock r (reads r) + checkpointsWriteTimeout c)
             (clock r (readsAfterUpdates c r)) (minCheckpointsPerRun c) #
           (if Time_Sub (clock r (Suc (readsAfterUpdates c r))) (lastCheckpointGC r) > checkpointsGCInterval r
            then [Call_GarbageCollectCheckpoints] else [])
      else []) @
     [ObserveStep ''MaintainCheckpoints''] @
     (if Time_Sub (gcTime c r) (lastAggregateContainerStateGC r) > 3600 * 1000000000
      then [Call_GarbageCollectAggregateCollectionStates (gcTime c r)] else []) @
     [ObserveStep ''GarbageCollect'', Call_cancelFunc, ObserveTotal] \<and>
   lastAggregateContainerStateGC (RunOnce c r) =
     (if Time_Sub (gcTime c r) (lastAggregateContainerStateGC r) > 3600 * 1000000000
      then gcTime c r else lastAggregateContainerStateGC r) \<and>
   lastCheckpointGC (RunOnce c r) =
     (if useCheckpoints r \<and>
         Time_Sub (clock r (Suc (readsAfterUpdates c r))) (lastCheckpointGC r) > checkpointsGCInterval r
      then clock r (readsAfterUpdates c r) else lastCheckpointGC r)"
proof -
  define r0 where "r0 = snd (time_Now r)"
  define deadline where "deadline = Time_Add (fst (time_Now r)) (checkpointsWriteTimeout c)"
  define r3 where "r3 = loadSteps c r0"
  define u where "u = UpdateVPAs c r3"
  define r4 where "r4 = emit [ObserveStep ''UpdateVPAs''] u"
  define m where "m = MaintainCheckpoints c deadline (minCheckpointsPerRun c) r4"
  define r5 where "r5 = emit [ObserveStep ''MaintainCheckpoints''] m"
  define g where "g = GarbageCollect c r5"
  define n where "n = readsAfterUpdates c r"
  have run: "RunOnce c r = emit [Call_cancelFunc, ObserveTotal] (emit [ObserveStep ''GarbageCollect''] g)"
    by (simp add: RunOnce_def Let_def r0_def deadline_def r3_def u_def r4_def m_def r5_def g_def)
  have dl: "deadline = clock r (reads r) + checkpointsWriteTimeout c"
    by (simp add: deadline_def time_Now_def Time_Add_def)
  have r3: "r3 = r\<lparr>clusterState := loadedState c r,
       events := events r @
         [Call_LoadVPAs, ObserveStep ''LoadVPAs'', Call_LoadPods, ObserveStep ''LoadPods'',
          Call_LoadRealTimeMetrics, ObserveStep ''LoadMetrics''],
       reads := Suc (reads r)\<rparr>"
    by (simp add: r3_def r0_def loadSteps_result time_Now_def loadedState_def)
  have u: "events u = events r3 @ statusWrites c r" "reads u = n" "clock u = clock r"
    "useCheckpoints u = useCheckpoints r" "lastCheckpointGC u = lastCheckpointGC r"
    "checkpointsGCInterval u = checkpointsGCInterval r"
    "lastAggregateContainerStateGC u = lastAggregateContainerStateGC r"
    unfolding u_def UpdateVPAs_def fold_updateVPA_outcome n_def
    by (simp_all add: r3 statusWrites_def readsAfterUpdates_def)
  have r4: "events r4 = events u @ [ObserveStep ''UpdateVPAs'']" "reads r4 = n" "clock r4 = clock r"
    "useCheckpoints r4 = useCheckpoints r" "lastCheckpointGC r4 = lastCheckpointGC r"
    "checkpointsGCInterval r4 = checkpointsGCInterval r"
    "lastAggregateContainerStateGC r4 = lastAggregateContainerStateGC r"
    by (simp_all add: r4_def emit_frame u)
  have em: "events m = events r4 @
     (if useCheckpoints r
      then Call_StoreCheckpoints (clock r (reads r) + checkpointsWriteTimeout c)
             (clock r n) (minCheckpointsPerRun c) #
           (if Time_Sub (clock r (Suc n)) (lastCheckpointGC r) > checkpointsGCInterval r
            then [Call_GarbageCollectCheckpoints] else [])
      else [])"
    unfolding m_def MaintainCheckpoints_events by (simp only: r4 dl)
  have fm: "lastAggregateContainerStateGC m = lastAggregateContainerStateGC r" "clock m = clock r"
    "reads m = n + (if useCheckpoints r then 2 else 1)"
    "lastCheckpointGC m =
       (if useCheckpoints r \<and> Time_Sub (clock r (Suc n)) (lastCheckpointGC r) > checkpointsGCInterval r
        then clock r n else lastCheckpointGC r)"
    unfolding m_def by (simp_all only: MaintainCheckpoints_frame r4)
  have r5: "events r5 = events m @ [ObserveStep ''MaintainCheckpoints'']"
    "lastAggregateContainerStateGC r5 = lastAggregateContainerStateGC r" "clock r5 = clock r"
    "reads r5 = n + (if useCheckpoints r then 2 else 1)"
    "lastCheckpointGC r5 = lastCheckpointGC m"
    by (simp_all add: r5_def emit_frame fm)
  have gt: "gcTime c r = clock r (n + (if useCheckpoints r then 2 else 1))"
    by (simp only: gcTime_def n_def)
  have hour: "AggregateContainerStateGCInterval = 3600 * 1000000000"
    by (simp add: AggregateContainerStateGCInterval_def Hour_def Minute_def)
  have eg: "events g = events r5 @
     (if Time_Sub (gcTime c r) (lastAggregateContainerStateGC r) > 3600 * 1000000000
      then [Call_GarbageCollectAggregateCollectionStates (gcTime c r)] else [])"
    unfolding g_def GarbageCollect_events by (simp only: r5 hour gt)
  have fg: "lastCheckpointGC g = lastCheckpointGC m"
    "lastAggregateContainerStateGC g =
     (if Time_Sub (gcTime c r) (lastAggregateContainerStateGC r) > 3600 * 1000000000
      then gcTime c r else lastAggregateContainerStateGC r)"
    unfolding g_def by (simp_all only: GarbageCollect_frame r5 hour gt)
  have e3: "events r3 = events r @
         [Call_LoadVPAs, ObserveStep ''LoadVPAs'', Call_LoadPods, ObserveStep ''LoadPods'',
          Call_LoadRealTimeMetrics, ObserveStep ''LoadMetrics'']"
    by (simp add: r3)
  have all: "events (RunOnce c r) =
     events r @
     [Call_LoadVPAs, ObserveStep ''LoadVPAs'', Call_LoadPods, ObserveStep ''LoadPods'',
      Call_LoadRealTimeMetrics, ObserveStep ''LoadMetrics''] @
     statusWrites c r @ [ObserveStep ''UpdateVPAs''] @
     (if useCheckpoints r
      then Call_StoreCheckpoints (clock r (reads r) + checkpointsWriteTimeout c)
             (clock r n) (minCheckpointsPerRun c) #
           (if Time_Sub (clock r (Suc n)) (lastCheckpointGC r) > checkpointsGCInterval r
            then [Call_GarbageCollectCheckpoints] else [])
      else []) @
     [ObserveStep ''MaintainCheckpoints''] @
     (if Time_Sub (gcTime c r) (lastAggregateContainerStateGC r) > 3600 * 1000000000
      then [Call_GarbageCollectAggregateCollectionStates (gcTime c r)] else []) @
     [ObserveStep ''GarbageCollect'', Call_cancelFunc, ObserveTotal]"
    unfolding run by (simp only: emit_frame eg r5(1) em r4(1) u(1) e3 append_assoc append.simps)
  have la: "lastAggregateContainerStateGC (RunOnce c r) =
     (if Time_Sub (gcTime c r) (lastAggregateContainerStateGC r) > 3600 * 1000000000
      then gcTime c r else lastAggregateContainerStateGC r)"
    unfolding run by (simp only: emit_frame fg)
  have lc: "lastCheckpointGC (RunOnce c r) =
     (if useCheckpoints r \<and>
         Time_Sub (clock r (Suc n)) (lastCheckpointGC r) > checkpointsGCInterval r
      then clock r n else lastCheckpointGC r)"
    unfolding run by (simp only: emit_frame fg fm)
  from all la lc show ?thesis
    unfolding n_def by (intro conjI)
qed

text \<open>
  At the example whose last collection of checkpoints was an hour before, the clock is
  read at 0 (the deadline is one minute later), at 1 minute for the one config, at 2 and 3
  minutes in MaintainCheckpoints, where the checkpoints are collected, and at 4 minutes in
  GarbageCollect.
\<close>

theorem RunOnce_sequence_witness:
  "events (RunOnce example_collaborators example_recommender_gc) =
     [Call_LoadVPAs, ObserveStep ''LoadVPAs'', Call_LoadPods, ObserveStep ''LoadPods'',
      Call_LoadRealTimeMetrics, ObserveStep ''LoadMetrics'',
      PatchVpaStatus (''default'', ''my-vpa'')
        \<lparr>Status_Recommendation = Some [example_capped], Status_Conditions = []\<rparr>,
      ObserveStep ''UpdateVPAs'',
      Call_StoreCheckpoints (1 * Minute) (2 * Minute) 10,
      Call_GarbageCollectCheckpoints,
      ObserveStep ''MaintainCheckpoints'',
      Call_GarbageCollectAggregateCollectionStates (4 * Minute),
      ObserveStep ''GarbageCollect'', Call_cancelFunc, ObserveTotal] \<and>
   lastAggregateContainerStateGC (RunOnce example_collaborators example_recommender_gc) = 4 * Minute \<and>
   lastCheckpointGC (RunOnce example_collaborators example_recommender_gc) = 2 * Minute"
proof -
  have ev: "events (RunOnce example_collaborators example_recommender_gc) =
     [Call_LoadVPAs, ObserveStep ''LoadVPAs'', Call_LoadPods, ObserveStep ''LoadPods'',
      Call_LoadRealTimeMetrics, ObserveStep ''LoadMetrics'',
      PatchVpaStatus (''default'', ''my-vpa'')
        \<lparr>Status_Recommendation = Some [example_capped], Status_Conditions = []\<rparr>,
      ObserveStep ''UpdateVPAs'',
      Call_StoreCheckpoints (1 * Minute) (2 * Minute) 10,
      Call_GarbageCollectCheckpoints,
      ObserveStep ''MaintainCheckpoints'',
      Call_GarbageCollectAggregateCollectionStates (4 * Minute),
      ObserveStep ''GarbageCollect'', Call_cancelFunc, ObserveTotal]"
    by (rule trans [OF conjunct1 [OF RunOnce_sequence]]) code_simp
  have la: "lastAggregateContainerStateGC (RunOnce example_collaborators example_recommender_gc) = 4 * Minute"
    by (rule trans [OF conjunct1 [OF conjunct2 [OF RunOnce_sequence]]]) code_simp
  have lc: "lastCheckpointGC (RunOnce example_collaborators example_recommender_gc) = 2 * Minute"
    by (rule trans [OF conjunct2 [OF conjunct2 [OF RunOnce_sequence]]]) code_simp
  from ev la lc show ?thesis by (intro conjI)
qed


end
